theory Spec2Isabelle
  imports Main "HOL-Library.Monad_Syntax" "HOL-Library.Word"
begin

section \<open>Kubernetes API objects\<close>

text \<open>
  The Go structs of the Kubernetes API that the renderers fill in, as records with the
  fields the source sets. A Go pointer and a Go interface value are an \<open>option\<close>
  (\<open>None\<close> is \<open>nil\<close>); a Go \<open>map[string]string\<close> is a \<open>(string \<rightharpoonup> string) option\<close>,
  since a nil map and an empty map differ (writing into a nil map panics). A field that
  two structs share carries the struct's name in front.
\<close>

record TypeMeta =
  Kind :: string
  APIVersion :: string

record ObjectMeta =
  Name :: string
  Namespace :: string
  Labels :: "(string \<rightharpoonup> string) option"
  Annotations :: "(string \<rightharpoonup> string) option"

record Namespace =
  Namespace_TypeMeta :: TypeMeta
  Namespace_ObjectMeta :: ObjectMeta

record Secret =
  Secret_TypeMeta :: TypeMeta
  Secret_ObjectMeta :: ObjectMeta

record ServiceAccount =
  ServiceAccount_TypeMeta :: TypeMeta
  ServiceAccount_ObjectMeta :: ObjectMeta

record PolicyRule =
  APIGroups :: "string list"
  Resources :: "string list"
  Verbs :: "string list"
  ResourceNames :: "string list"

record ClusterRole =
  ClusterRole_TypeMeta :: TypeMeta
  ClusterRole_ObjectMeta :: ObjectMeta
  Rules :: "PolicyRule list"

record RoleRef =
  RoleRef_APIGroup :: string
  RoleRef_Kind :: string
  RoleRef_Name :: string

record Subject =
  Subject_Kind :: string
  Subject_Name :: string
  Subject_Namespace :: string

record ClusterRoleBinding =
  ClusterRoleBinding_TypeMeta :: TypeMeta
  ClusterRoleBinding_ObjectMeta :: ObjectMeta
  ClusterRoleBinding_RoleRef :: RoleRef
  Subjects :: "Subject list"

datatype HostPathType = HostPathDirectoryOrCreate | HostPathOther string

datatype VolumeSource =
    HostPath string "HostPathType option"
  | SecretSource string
  | ConfigMapSource string
  | EmptyDirSource
  | CSISource string

record Volume =
  Volume_Name :: string
  Volume_VolumeSource :: VolumeSource

record VolumeMount =
  VolumeMount_Name :: string
  MountPath :: string
  ReadOnly :: bool

record EnvVar =
  EnvVar_Name :: string
  EnvVar_Value :: string
  ValueFrom_FieldPath :: "string option"

record ResourceRequirements =
  Limits :: "(string \<times> string) list"
  Requests :: "(string \<times> string) list"

record SecurityContext =
  Privileged :: "bool option"

datatype URIScheme = URISchemeHTTP | URISchemeHTTPS

record HTTPGetAction =
  Host :: string
  Path :: string
  Port :: int
  Scheme :: URIScheme

record Probe =
  HTTPGet :: "HTTPGetAction option"
  TimeoutSeconds :: int
  InitialDelaySeconds :: int
  PeriodSeconds :: int

record Container =
  Container_Name :: string
  Image :: string
  Container_Resources :: ResourceRequirements
  Env :: "EnvVar list"
  VolumeMounts :: "VolumeMount list"
  Container_SecurityContext :: "SecurityContext option"
  ReadinessProbe :: "Probe option"

record Toleration =
  Toleration_Key :: string
  Toleration_Operator :: string
  Toleration_Effect :: string

datatype DNSPolicy = DNSClusterFirstWithHostNet | DNSClusterFirst | DNSDefault

record PodSpec =
  Tolerations :: "Toleration list"
  ImagePullSecrets :: "string list"
  ServiceAccountName :: string
  TerminationGracePeriodSeconds :: "int option"
  HostNetwork :: bool
  PodSpec_DNSPolicy :: DNSPolicy
  InitContainers :: "Container list"
  Containers :: "Container list"
  Volumes :: "Volume list"

record PodTemplateSpec =
  PodTemplateSpec_ObjectMeta :: ObjectMeta
  PodTemplateSpec_Spec :: PodSpec

record DaemonSetSpec =
  Template :: PodTemplateSpec

record DaemonSet =
  DaemonSet_TypeMeta :: TypeMeta
  DaemonSet_ObjectMeta :: ObjectMeta
  DaemonSet_Spec :: DaemonSetSpec

text \<open>
  \<open>client.Object\<close> is an interface; the renderer puts values of six Go types behind it.
\<close>

datatype Object =
    NamespaceObject Namespace
  | SecretObject Secret
  | ServiceAccountObject ServiceAccount
  | ClusterRoleObject ClusterRole
  | ClusterRoleBindingObject ClusterRoleBinding
  | DaemonSetObject DaemonSet

text \<open>
  The identity of a resource descriptor is (kind, namespace, name). The kind is the one of
  the Go type behind the interface, which is how the cluster client resolves it; namespace
  and name are read from the descriptor's \<open>ObjectMeta\<close>.
\<close>

fun kindOf :: "Object \<Rightarrow> string" where
  "kindOf (NamespaceObject _) = ''Namespace''"
| "kindOf (SecretObject _) = ''Secret''"
| "kindOf (ServiceAccountObject _) = ''ServiceAccount''"
| "kindOf (ClusterRoleObject _) = ''ClusterRole''"
| "kindOf (ClusterRoleBindingObject _) = ''ClusterRoleBinding''"
| "kindOf (DaemonSetObject _) = ''DaemonSet''"

fun objectMeta :: "Object \<Rightarrow> ObjectMeta" where
  "objectMeta (NamespaceObject x) = Namespace_ObjectMeta x"
| "objectMeta (SecretObject x) = Secret_ObjectMeta x"
| "objectMeta (ServiceAccountObject x) = ServiceAccount_ObjectMeta x"
| "objectMeta (ClusterRoleObject x) = ClusterRole_ObjectMeta x"
| "objectMeta (ClusterRoleBindingObject x) = ClusterRoleBinding_ObjectMeta x"
| "objectMeta (DaemonSetObject x) = DaemonSet_ObjectMeta x"

definition identity :: "Object \<Rightarrow> string \<times> string \<times> string" where
  "identity x = (kindOf x, Namespace (objectMeta x), Name (objectMeta x))"

section \<open>The configuration of the DPI component\<close>

type_synonym Provider = string
type_synonym OSType = string

record InstallationSpec =
  KubernetesProvider :: Provider
  Registry :: string
  ImagePath :: string
  ImagePrefix :: string

record ComponentResource =
  ComponentName :: string
  ResourceRequirements :: "ResourceRequirements option"

record IntrusionDetectionSpec =
  ComponentResources :: "ComponentResource list"

record IntrusionDetection =
  IntrusionDetection_Spec :: IntrusionDetectionSpec

text \<open>
  \<open>KeyPairInterface\<close> and \<open>TrustedBundle\<close> are interfaces whose implementations live in
  another package: a value of the interface is the record of what its methods return.
\<close>

record KeyPairInterface =
  UseCertificateManagement :: bool
  InitContainer :: "string \<Rightarrow> Container"
  KeyPair_Volume :: Volume
  KeyPair_VolumeMount :: "OSType \<Rightarrow> VolumeMount"
  VolumeMountCertificateFilePath :: string
  VolumeMountKeyFilePath :: string
  HashAnnotationKey :: string
  HashAnnotationValue :: string

record TrustedBundle =
  TrustedBundle_Volume :: Volume
  TrustedBundle_VolumeMount :: "OSType \<Rightarrow> VolumeMount"
  TrustedBundle_MountPath :: string
  HashAnnotations :: "(string \<rightharpoonup> string) option"

record TyphaNodeTLS =
  TrustedBundle :: "TrustedBundle option"
  NodeSecret :: "KeyPairInterface option"
  TyphaCommonName :: string
  TyphaURISAN :: string

record ClusterConfig =
  ClusterName :: string
  Replicas :: int
  Shards :: int

record DPIConfig =
  IntrusionDetection :: "IntrusionDetection option"
  Installation :: "InstallationSpec option"
  TyphaNodeTLS :: "TyphaNodeTLS option"
  PullSecrets :: "Secret list"
  Openshift :: bool
  HasNoLicense :: bool
  HasNoDPIResource :: bool
  ESSecrets :: "Secret list"
  ESClusterConfig :: "ClusterConfig option"
  ClusterDomain :: string

record dpiComponent =
  cfg :: "DPIConfig option"
  dpiImage :: string

record ImageSet =
  Images :: "(string \<times> string) list"

text \<open>
  The helpers and constants of the repository's other packages that the DPI renderer
  calls (\<open>render\<close>, \<open>secret\<close>, \<open>relasticsearch\<close>, \<open>rmeta\<close>, \<open>common\<close>, \<open>components\<close>,
  \<open>operatorv1\<close>). Their code is not among the sources, so the renderer is
  modelled over any implementation of them: each is a field of this record, and what a
  theorem needs from one of them is a hypothesis of that theorem.
  \<open>DecorateAnnotations\<close> returns an interface value that the renderer asserts to be a
  pod template and dereferences: \<open>None\<close> is a result on which that panics.
\<close>

record deps =
  CreateNamespace :: "string \<Rightarrow> Provider \<Rightarrow> string \<Rightarrow> Namespace"
  PSSPrivileged :: string
  PublicCertSecret :: string
  CopyToNamespace :: "string \<Rightarrow> Secret list \<Rightarrow> Secret list"
  ToRuntimeObjects :: "Secret list \<Rightarrow> Object list"
  GetReferenceList :: "Secret list \<Rightarrow> string list"
  DecorateAnnotations ::
    "PodTemplateSpec \<Rightarrow> ClusterConfig option \<Rightarrow> Secret list \<Rightarrow> PodTemplateSpec option"
  ContainerDecorate :: "Container \<Rightarrow> string \<Rightarrow> string \<Rightarrow> string \<Rightarrow> OSType \<Rightarrow> Container"
  ContainerDecorateIndexCreator :: "Container \<Rightarrow> int \<Rightarrow> int \<Rightarrow> Container"
  ElasticsearchIntrusionDetectionUserSecret :: string
  CalicoNamespace :: string
  TyphaServiceName :: string
  TolerateAll :: "Toleration list"
  ProviderOpenShift :: Provider
  OSTypeLinux :: OSType
  ComponentDeepPacketInspection :: string
  GetReference ::
    "string \<Rightarrow> string \<Rightarrow> string \<Rightarrow> string \<Rightarrow> ImageSet option \<Rightarrow> string \<times> string option"

section \<open>The DPI renderer\<close>

text \<open>
  Every function of the renderer returns an \<open>option\<close>: \<open>None\<close> is a run-time panic of
  the Go code (a nil pointer or nil interface dereferenced, an index out of range, a write
  into a nil map, a failed type assertion).
\<close>

definition DeepPacketInspectionNamespace :: string where
  "DeepPacketInspectionNamespace = ''tigera-dpi''"

definition DeepPacketInspectionName :: string where
  "DeepPacketInspectionName = ''tigera-dpi''"

definition DPI :: "DPIConfig option \<Rightarrow> dpiComponent" where
  "DPI c = \<lparr>cfg = c, dpiImage = []\<rparr>"

text \<open>
  \<open>ResolveImages\<close> stores the first result of \<open>GetReference\<close> in the component, also when
  the second result is an error, and returns that error: the model returns the updated
  component with it.
\<close>

definition ResolveImages ::
  "deps \<Rightarrow> dpiComponent \<Rightarrow> ImageSet option \<Rightarrow> (dpiComponent \<times> string option) option" where
  "ResolveImages D d is = do {
     c \<leftarrow> cfg d;
     inst \<leftarrow> Installation c;
     (case GetReference D (ComponentDeepPacketInspection D)
             (Registry inst) (ImagePath inst) (ImagePrefix inst) is of
        (img, err) \<Rightarrow> Some (d\<lparr>dpiImage := img\<rparr>, err))
   }"

definition Ready :: "dpiComponent \<Rightarrow> bool" where
  "Ready d = True"

definition SupportedOSType :: "deps \<Rightarrow> dpiComponent \<Rightarrow> OSType" where
  "SupportedOSType D d = OSTypeLinux D"

definition dpiAnnotations :: "dpiComponent \<Rightarrow> (string \<rightharpoonup> string) option option" where
  "dpiAnnotations d = do {
     c \<leftarrow> cfg d;
     if HasNoDPIResource c \<or> HasNoLicense c then Some None
     else do {
       tls \<leftarrow> TyphaNodeTLS c;
       tb \<leftarrow> TrustedBundle tls;
       ns \<leftarrow> NodeSecret tls;
       (case HashAnnotations tb of
          None \<Rightarrow> None
        | Some annotations \<Rightarrow>
            Some (Some (annotations(HashAnnotationKey ns \<mapsto> HashAnnotationValue ns))))
     }
   }"

definition dpiClusterRole :: "deps \<Rightarrow> dpiComponent \<Rightarrow> ClusterRole option" where
  "dpiClusterRole D d = do {
     c \<leftarrow> cfg d;
     inst \<leftarrow> Installation c;
     let role = \<lparr>
       ClusterRole_TypeMeta = \<lparr>Kind = ''ClusterRole'', APIVersion = ''rbac.authorization.k8s.io/v1''\<rparr>,
       ClusterRole_ObjectMeta =
         \<lparr>Name = DeepPacketInspectionName, Namespace = [], Labels = None, Annotations = None\<rparr>,
       Rules = [
         \<lparr>APIGroups = [''crd.projectcalico.org''],
          Resources = [''deeppacketinspections''],
          Verbs = [''get'', ''list'', ''watch''],
          ResourceNames = []\<rparr>,
         \<lparr>APIGroups = [''crd.projectcalico.org''],
          Resources = [''deeppacketinspections/status''],
          Verbs = [''update''],
          ResourceNames = []\<rparr>,
         \<lparr>APIGroups = [[]],
          Resources = [''endpoints'', ''services''],
          Verbs = [''watch'', ''list'', ''get''],
          ResourceNames = []\<rparr>]\<rparr>;
     Some (if KubernetesProvider inst \<noteq> ProviderOpenShift D
           then role\<lparr>Rules := Rules role @ [
                  \<lparr>APIGroups = [''policy''],
                   Resources = [''podsecuritypolicies''],
                   Verbs = [''use''],
                   ResourceNames = [DeepPacketInspectionName]\<rparr>]\<rparr>
           else role)
   }"

definition dpiClusterRoleBinding :: "dpiComponent \<Rightarrow> ClusterRoleBinding" where
  "dpiClusterRoleBinding d = \<lparr>
     ClusterRoleBinding_TypeMeta =
       \<lparr>Kind = ''ClusterRoleBinding'', APIVersion = ''rbac.authorization.k8s.io/v1''\<rparr>,
     ClusterRoleBinding_ObjectMeta =
       \<lparr>Name = DeepPacketInspectionName, Namespace = [],
        Labels = Some Map.empty, Annotations = None\<rparr>,
     ClusterRoleBinding_RoleRef =
       \<lparr>RoleRef_APIGroup = ''rbac.authorization.k8s.io'',
        RoleRef_Kind = ''ClusterRole'',
        RoleRef_Name = DeepPacketInspectionName\<rparr>,
     Subjects = [
       \<lparr>Subject_Kind = ''ServiceAccount'',
        Subject_Name = DeepPacketInspectionName,
        Subject_Namespace = DeepPacketInspectionNamespace\<rparr>]\<rparr>"

definition dpiServiceAccount :: "dpiComponent \<Rightarrow> ServiceAccount" where
  "dpiServiceAccount d = \<lparr>
     ServiceAccount_TypeMeta = \<lparr>Kind = ''ServiceAccount'', APIVersion = ''v1''\<rparr>,
     ServiceAccount_ObjectMeta =
       \<lparr>Name = DeepPacketInspectionName, Namespace = DeepPacketInspectionNamespace,
        Labels = None, Annotations = None\<rparr>\<rparr>"

definition dpiReadinessProbes :: "dpiComponent \<Rightarrow> Probe option" where
  "dpiReadinessProbes d = Some \<lparr>
     HTTPGet = Some \<lparr>Host = ''localhost'', Path = ''/readiness'', Port = 9097,
                      Scheme = URISchemeHTTP\<rparr>,
     TimeoutSeconds = 10,
     InitialDelaySeconds = 90,
     PeriodSeconds = 10\<rparr>"

definition dpiVolumeMounts :: "deps \<Rightarrow> dpiComponent \<Rightarrow> VolumeMount list option" where
  "dpiVolumeMounts D d = do {
     c \<leftarrow> cfg d;
     tls \<leftarrow> TyphaNodeTLS c;
     tb \<leftarrow> TrustedBundle tls;
     ns \<leftarrow> NodeSecret tls;
     Some [
       TrustedBundle_VolumeMount tb (SupportedOSType D d),
       KeyPair_VolumeMount ns (SupportedOSType D d),
       \<lparr>VolumeMount_Name = ''log-snort-alters'', MountPath = ''/var/log/calico/snort-alerts'',
        ReadOnly = False\<rparr>]
   }"

definition dpiEnvVars :: "deps \<Rightarrow> dpiComponent \<Rightarrow> EnvVar list option" where
  "dpiEnvVars D d = do {
     c \<leftarrow> cfg d;
     tls \<leftarrow> TyphaNodeTLS c;
     tb \<leftarrow> TrustedBundle tls;
     ns \<leftarrow> NodeSecret tls;
     let env = [
       \<lparr>EnvVar_Name = ''DPI_NODENAME'', EnvVar_Value = [],
        ValueFrom_FieldPath = Some ''spec.nodeName''\<rparr>,
       \<lparr>EnvVar_Name = ''DPI_TYPHAK8SNAMESPACE'', EnvVar_Value = CalicoNamespace D,
        ValueFrom_FieldPath = None\<rparr>,
       \<lparr>EnvVar_Name = ''DPI_TYPHAK8SSERVICENAME'', EnvVar_Value = TyphaServiceName D,
        ValueFrom_FieldPath = None\<rparr>,
       \<lparr>EnvVar_Name = ''DPI_TYPHACAFILE'', EnvVar_Value = TrustedBundle_MountPath tb,
        ValueFrom_FieldPath = None\<rparr>,
       \<lparr>EnvVar_Name = ''DPI_TYPHACERTFILE'', EnvVar_Value = VolumeMountCertificateFilePath ns,
        ValueFrom_FieldPath = None\<rparr>,
       \<lparr>EnvVar_Name = ''DPI_TYPHAKEYFILE'', EnvVar_Value = VolumeMountKeyFilePath ns,
        ValueFrom_FieldPath = None\<rparr>];
     let env = (if TyphaCommonName tls \<noteq> []
                then env @ [\<lparr>EnvVar_Name = ''DPI_TYPHACN'', EnvVar_Value = TyphaCommonName tls,
                             ValueFrom_FieldPath = None\<rparr>]
                else env);
     let env = (if TyphaURISAN tls \<noteq> []
                then env @ [\<lparr>EnvVar_Name = ''DPI_TYPHAURISAN'', EnvVar_Value = TyphaURISAN tls,
                             ValueFrom_FieldPath = None\<rparr>]
                else env);
     Some env
   }"

definition dpiVolumes :: "dpiComponent \<Rightarrow> Volume list option" where
  "dpiVolumes d = do {
     c \<leftarrow> cfg d;
     tls \<leftarrow> TyphaNodeTLS c;
     tb \<leftarrow> TrustedBundle tls;
     ns \<leftarrow> NodeSecret tls;
     Some [
       TrustedBundle_Volume tb,
       KeyPair_Volume ns,
       \<lparr>Volume_Name = ''log-snort-alters'',
        Volume_VolumeSource =
          HostPath ''/var/log/calico/snort-alerts'' (Some HostPathDirectoryOrCreate)\<rparr>]
   }"

text \<open>
  \<open>ComponentResources[0]\<close> panics on an empty list, and its \<open>ResourceRequirements\<close> is a
  pointer that is dereferenced.
\<close>

definition dpiContainer :: "deps \<Rightarrow> dpiComponent \<Rightarrow> Container option" where
  "dpiContainer D d = do {
     c \<leftarrow> cfg d;
     let privileged = (if Openshift c then True else False);
     ids \<leftarrow> IntrusionDetection c;
     cr \<leftarrow> (case ComponentResources (IntrusionDetection_Spec ids) of
              [] \<Rightarrow> None
            | x # _ \<Rightarrow> Some x);
     rr \<leftarrow> ResourceRequirements cr;
     env \<leftarrow> dpiEnvVars D d;
     vms \<leftarrow> dpiVolumeMounts D d;
     let dpiContainer = \<lparr>
       Container_Name = DeepPacketInspectionName,
       Image = dpiImage d,
       Container_Resources = rr,
       Env = env,
       VolumeMounts = vms,
       Container_SecurityContext = Some \<lparr>Privileged = Some privileged\<rparr>,
       ReadinessProbe = dpiReadinessProbes d\<rparr>;
     es \<leftarrow> ESClusterConfig c;
     Some (ContainerDecorateIndexCreator D
             (ContainerDecorate D dpiContainer (ClusterName es)
                (ElasticsearchIntrusionDetectionUserSecret D) (ClusterDomain c) (OSTypeLinux D))
             (Replicas es) (Shards es))
   }"

definition dpiDaemonset :: "deps \<Rightarrow> dpiComponent \<Rightarrow> DaemonSet option" where
  "dpiDaemonset D d = do {
     c \<leftarrow> cfg d;
     let terminationGracePeriod = 0;
     tls \<leftarrow> TyphaNodeTLS c;
     ns \<leftarrow> NodeSecret tls;
     let initContainers =
       (if UseCertificateManagement ns
        then [] @ [InitContainer ns DeepPacketInspectionNamespace]
        else []);
     annotations \<leftarrow> dpiAnnotations d;
     container \<leftarrow> dpiContainer D d;
     volumes \<leftarrow> dpiVolumes d;
     podTemplate \<leftarrow> DecorateAnnotations D \<lparr>
       PodTemplateSpec_ObjectMeta =
         \<lparr>Name = [], Namespace = [], Labels = None, Annotations = annotations\<rparr>,
       PodTemplateSpec_Spec = \<lparr>
         Tolerations = TolerateAll D,
         ImagePullSecrets = GetReferenceList D (PullSecrets c),
         ServiceAccountName = DeepPacketInspectionName,
         TerminationGracePeriodSeconds = Some terminationGracePeriod,
         HostNetwork = True,
         PodSpec_DNSPolicy = DNSClusterFirstWithHostNet,
         InitContainers = initContainers,
         Containers = [container],
         Volumes = volumes\<rparr>\<rparr> (ESClusterConfig c) (ESSecrets c);
     Some \<lparr>
       DaemonSet_TypeMeta = \<lparr>Kind = ''DaemonSet'', APIVersion = ''apps/v1''\<rparr>,
       DaemonSet_ObjectMeta =
         \<lparr>Name = DeepPacketInspectionName, Namespace = DeepPacketInspectionNamespace,
          Labels = None, Annotations = None\<rparr>,
       DaemonSet_Spec = \<lparr>Template = podTemplate\<rparr>\<rparr>
   }"

text \<open>
  \<open>Objects\<close>: the namespace goes to one list or the other by the license alone; the
  secrets and the four owned objects go to \<open>toDelete\<close> when either prerequisite is missing
  and to \<open>toCreate\<close> otherwise.
\<close>

definition Objects :: "deps \<Rightarrow> dpiComponent \<Rightarrow> (Object list \<times> Object list) option" where
  "Objects D d = do {
     c \<leftarrow> cfg d;
     inst \<leftarrow> Installation c;
     let ns = NamespaceObject (CreateNamespace D DeepPacketInspectionNamespace
                                 (KubernetesProvider inst) (PSSPrivileged D));
     let toCreate = (if HasNoLicense c then [] else [] @ [ns]);
     let toDelete = (if HasNoLicense c then [] @ [ns] else []);
     if HasNoDPIResource c \<or> HasNoLicense c then do {
       let toDelete = toDelete @ [SecretObject \<lparr>
         Secret_TypeMeta = \<lparr>Kind = ''Secret'', APIVersion = ''v1''\<rparr>,
         Secret_ObjectMeta =
           \<lparr>Name = PublicCertSecret D, Namespace = DeepPacketInspectionNamespace,
            Labels = None, Annotations = None\<rparr>\<rparr>];
       let toDelete = toDelete @ ToRuntimeObjects D
         (CopyToNamespace D DeepPacketInspectionNamespace (PullSecrets c));
       role \<leftarrow> dpiClusterRole D d;
       daemonset \<leftarrow> dpiDaemonset D d;
       Some (toCreate,
             toDelete @ [
               ServiceAccountObject (dpiServiceAccount d),
               ClusterRoleObject role,
               ClusterRoleBindingObject (dpiClusterRoleBinding d),
               DaemonSetObject daemonset])
     } else do {
       let toCreate = toCreate @ ToRuntimeObjects D
         (CopyToNamespace D DeepPacketInspectionNamespace (ESSecrets c));
       let toCreate = toCreate @ ToRuntimeObjects D
         (CopyToNamespace D DeepPacketInspectionNamespace (PullSecrets c));
       role \<leftarrow> dpiClusterRole D d;
       daemonset \<leftarrow> dpiDaemonset D d;
       Some (toCreate @ [
               ServiceAccountObject (dpiServiceAccount d),
               ClusterRoleObject role,
               ClusterRoleBindingObject (dpiClusterRoleBinding d),
               DaemonSetObject daemonset],
             toDelete)
     }
   }"

section \<open>The controllers\<close>

text \<open>
  A reconciliation pass reads the cluster through helper calls, reports to the status
  manager, renders components and applies them. The model takes the answer of every helper
  call as an input (the record \<open>cluster\<close>) and returns, with the result of \<open>Reconcile\<close>, the
  sequence of calls the pass made on the status manager, the renderers and the component
  handler, in order. Log calls are left out, and so are values that only pass through (the
  installation, key pairs, pull secrets). An error is its \<open>IsNotFound\<close> flag and its
  message.
\<close>

datatype err = Err bool string

fun IsNotFound :: "err option \<Rightarrow> bool" where
  "IsNotFound None = False"
| "IsNotFound (Some (Err notFound _)) = notFound"

fun ErrorString :: "err \<Rightarrow> string" where
  "ErrorString (Err _ message) = message"

record APIServerConfiguration =
  ForceHostNetwork :: bool
  APIServer_ManagementCluster :: "string option"
  APIServer_ManagementClusterConnection :: "string option"
  AmazonCloudIntegration :: "string option"
  APIServer_Openshift :: bool
  TunnelCASecret :: "string option"
  APIServer_UsePSP :: bool

record ComplianceConfiguration =
  Compliance_ManagementCluster :: "string option"
  Compliance_ManagementClusterConnection :: "string option"
  ComplianceServerCertSecret :: "string option"
  Compliance_Openshift :: bool
  Compliance_HasNoLicense :: bool
  Compliance_UsePSP :: bool

datatype component =
    APIServerComponent APIServerConfiguration
  | ComplianceComponent ComplianceConfiguration
  | CertificateManagementComponent string
  | PassthroughComponent string
  | PacketCaptureAPIComponent

datatype event =
    OnCRNotFound
  | OnCRFound
  | SetDegraded string string
  | ClearDegraded
  | AddToStatusManager string
  | Render component
  | ImageSetApplied "component list"
  | Applied component
  | StatusUpdated

record outcome =
  RequeueAfter :: nat
  returned :: "err option"
  events :: "event list"

text \<open>
  A pass returns, or it panics after the calls it made so far.
\<close>

datatype result = Returned outcome | Panicked "event list"

fun trace :: "result \<Rightarrow> event list" where
  "trace (Returned out) = events out"
| "trace (Panicked evs) = evs"

text \<open>
  The answers of the helper calls of one pass, and the names that other packages define.
  \<open>GetInstallation\<close> answers with the variant of the installation's status, with the
  installation spec and with an error. The spec is a pointer, and of the spec the
  controllers read the field \<open>Variant\<close> only: the second component is that field, and \<open>None\<close>
  is the nil pointer. A query for a key pair or a certificate is answered by the name that
  is asked for.
\<close>

record cluster =
  GetAPIServer :: "string \<times> err option"
  GetCompliance :: "err option"
  IsAPIServerReady :: bool
  FetchLicenseKey :: "err option"
  IsFeatureActive :: bool
  GetInstallation :: "string \<times> string option \<times> err option"
  GetNetworkingPullSecrets :: "err option"
  GetElasticsearchClusterConfig :: "err option"
  GetManagementCluster :: "string option \<times> err option"
  GetManagementClusterConnection :: "string option \<times> err option"
  ElasticsearchSecrets :: "string list \<Rightarrow> err option"
  certificatemanager_Create :: "err option"
  GetOrCreateKeyPair :: "string \<Rightarrow> err option"
  GetKeyPair :: "string \<Rightarrow> string option \<times> err option"
  GetCertificate :: "string \<Rightarrow> string option \<times> err option"
  CreateSelfSignedSecret :: "err option"
  GetAmazonCloudIntegration :: "string option \<times> err option"
  GetK8sServiceEndPoint :: "err option"
  GetAuthentication :: "string option \<times> err option"
  GetKeyValidatorConfig :: "err option"
  render_APIServer :: "APIServerConfiguration \<Rightarrow> err option"
  render_Compliance :: "ComplianceConfiguration \<Rightarrow> err option"
  ApplyImageSet :: "component list \<Rightarrow> err option"
  CreateOrUpdateOrDelete :: "component \<Rightarrow> err option"
  IsAvailable :: bool
  Status_Update :: "err option"

record names =
  operatorv1_ProviderOpenShift :: Provider
  TigeraSecureEnterprise :: string
  TigeraStatusReady :: string
  APIServerNamespace :: "string \<Rightarrow> string"
  ProjectCalicoApiServerTLSSecretName :: "string \<Rightarrow> string"
  VoltronTunnelSecretName :: string
  PacketCaptureCertSecret :: string
  PacketCaptureNamespace :: string
  ManagerInternalTLSSecretName :: string
  relasticsearch_PublicCertSecret :: string
  ComplianceServerCertSecretName :: string
  ComplianceNamespace :: string
  ElasticsearchComplianceBenchmarkerUserSecret :: string
  ElasticsearchComplianceControllerUserSecret :: string
  ElasticsearchComplianceReporterUserSecret :: string
  ElasticsearchComplianceSnapshotterUserSecret :: string
  ElasticsearchComplianceServerUserSecret :: string

record ReconcileAPIServer =
  APIServer_provider :: Provider
  amazonCRDExists :: bool
  APIServer_usePSP :: bool

record ReconcileCompliance =
  Compliance_provider :: Provider
  licenseAPIReady :: bool
  Compliance_usePSP :: bool

text \<open>
  The error both controllers raise when a management cluster and a management cluster
  connection are present together.
\<close>

definition bothErr :: err where
  "bothErr = Err False
     ''having both a ManagementCluster and a ManagementClusterConnection is not supported''"

text \<open>
  The recurring exit \<open>r.status.SetDegraded(msg, err.Error()); return reconcile.Result{}, err\<close>.
\<close>

definition degrade :: "event list \<Rightarrow> string \<Rightarrow> err \<Rightarrow> outcome" where
  "degrade evs msg e =
     \<lparr>RequeueAfter = 0, returned = Some e, events = evs @ [SetDegraded msg (ErrorString e)]\<rparr>"

text \<open>
  The loop over the components: the handler is called on each in turn, and the first error
  ends the pass.
\<close>

fun applyComponents :: "cluster \<Rightarrow> string \<Rightarrow> component list \<Rightarrow> event list \<Rightarrow> event list \<times> err option" where
  "applyComponents w msg [] evs = (evs, None)"
| "applyComponents w msg (c # cs) evs =
     (case CreateOrUpdateOrDelete w c of
        Some e \<Rightarrow> (evs @ [Applied c, SetDegraded msg (ErrorString e)], Some e)
      | None \<Rightarrow> applyComponents w msg cs (evs @ [Applied c]))"

text \<open>
  The end of both passes, from \<open>ClearDegraded\<close> on.
\<close>

definition finish :: "cluster \<Rightarrow> event list \<Rightarrow> outcome" where
  "finish w evs =
     (if \<not> IsAvailable w
      then \<lparr>RequeueAfter = 30, returned = None, events = evs @ [ClearDegraded]\<rparr>
      else (case Status_Update w of
              Some e \<Rightarrow> \<lparr>RequeueAfter = 0, returned = Some e,
                         events = evs @ [ClearDegraded, StatusUpdated]\<rparr>
            | None \<Rightarrow> \<lparr>RequeueAfter = 0, returned = None,
                       events = evs @ [ClearDegraded, StatusUpdated]\<rparr>))"

subsection \<open>The API server controller\<close>

text \<open>
  \<open>ReconcileAPIServer.Reconcile\<close>, in four parts, last first: applying the components,
  rendering them, the enterprise-only queries, and the beginning of the pass.
\<close>

definition APIServer_apply :: "cluster \<Rightarrow> component list \<Rightarrow> event list \<Rightarrow> outcome" where
  "APIServer_apply w components evs =
     (case ApplyImageSet w components of
        Some e \<Rightarrow>
          degrade (evs @ [ImageSetApplied components]) ''Error with images from ImageSet'' e
      | None \<Rightarrow>
          (case applyComponents w ''Error creating / updating resource'' components
                  (evs @ [ImageSetApplied components]) of
             (evs, Some e) \<Rightarrow> \<lparr>RequeueAfter = 0, returned = Some e, events = evs\<rparr>
           | (evs, None) \<Rightarrow> finish w evs))"

definition APIServer_render ::
  "names \<Rightarrow> ReconcileAPIServer \<Rightarrow> cluster \<Rightarrow> string \<Rightarrow> string option \<Rightarrow> string option \<Rightarrow>
     string option \<Rightarrow> string option \<Rightarrow> component option \<Rightarrow> event list \<Rightarrow> outcome" where
  "APIServer_render N r w variant managementCluster managementClusterConnection amazon
       tunnelCASecret tunnelSecretPassthrough evs =
     (case GetK8sServiceEndPoint w of
        Some e \<Rightarrow> degrade evs ''Error reading services endpoint configmap'' e
      | None \<Rightarrow>
     let apiServerCfg = \<lparr>
           ForceHostNetwork = False,
           APIServer_ManagementCluster = managementCluster,
           APIServer_ManagementClusterConnection = managementClusterConnection,
           AmazonCloudIntegration = amazon,
           APIServer_Openshift = (APIServer_provider r = operatorv1_ProviderOpenShift N),
           TunnelCASecret = tunnelCASecret,
           APIServer_UsePSP = APIServer_usePSP r\<rparr>;
         component = APIServerComponent apiServerCfg;
         evs = evs @ [Render component]
     in case render_APIServer w apiServerCfg of
        Some e \<Rightarrow> degrade evs ''Error rendering APIServer'' e
      | None \<Rightarrow>
     let certificates = CertificateManagementComponent (APIServerNamespace N variant);
         evs = evs @ [Render certificates];
         components = [component, certificates];
         components = (case tunnelSecretPassthrough of
                         Some p \<Rightarrow> components @ [p]
                       | None \<Rightarrow> components)
     in if variant = TigeraSecureEnterprise N then
          (case GetOrCreateKeyPair w (PacketCaptureCertSecret N) of
             Some e \<Rightarrow>
               degrade evs ''Error retrieve or creating packet capture TLS certificate'' e
           | None \<Rightarrow>
          (case GetAuthentication w of (authenticationCR, err) \<Rightarrow>
           if err \<noteq> None \<and> \<not> IsNotFound err
           then degrade evs ''Error querying Authentication'' (the err)
           else
          (case GetKeyValidatorConfig w of
             Some e \<Rightarrow> degrade evs ''Failed to process the authentication CR.'' e
           | None \<Rightarrow>
          let pc = PacketCaptureAPIComponent;
              pcCertificates = CertificateManagementComponent (PacketCaptureNamespace N);
              evs = evs @ [Render pc, Render pcCertificates,
                           AddToStatusManager (PacketCaptureNamespace N)]
          in APIServer_apply w (components @ [pc, pcCertificates]) evs)))
        else APIServer_apply w components evs)"

text \<open>
  The tunnel secret of a management cluster. The error of \<open>CreateSelfSignedSecret\<close> is
  bound to a variable of the inner block, so the check after the block sees the error of
  \<open>GetKeyPair\<close> only. The result is the error, or the key pair and the passthrough component.
\<close>

definition tunnelSecret ::
  "names \<Rightarrow> cluster \<Rightarrow> event list \<Rightarrow> event list \<times> (err + string option \<times> component option)" where
  "tunnelSecret N w evs =
     (case GetKeyPair w (VoltronTunnelSecretName N) of (tunnelCASecret, err) \<Rightarrow>
      let created = (tunnelCASecret = None \<and> CreateSelfSignedSecret w = None);
          passthrough = PassthroughComponent (VoltronTunnelSecretName N);
          evs = (if created then evs @ [Render passthrough] else evs)
      in case err of
           Some e \<Rightarrow> (evs, Inl e)
         | None \<Rightarrow>
             (evs, Inr (if created then (Some (VoltronTunnelSecretName N), Some passthrough)
                        else (tunnelCASecret, None))))"

definition APIServer_enterprise ::
  "names \<Rightarrow> ReconcileAPIServer \<Rightarrow> cluster \<Rightarrow> string \<Rightarrow> event list \<Rightarrow> outcome" where
  "APIServer_enterprise N r w variant evs =
     (if variant = TigeraSecureEnterprise N then
        (case GetManagementCluster w of
           (_, Some e) \<Rightarrow> degrade evs ''Error reading ManagementCluster'' e
         | (managementCluster, None) \<Rightarrow>
        (case GetManagementClusterConnection w of
           (_, Some e) \<Rightarrow> degrade evs ''Error reading ManagementClusterConnection'' e
         | (managementClusterConnection, None) \<Rightarrow>
        if managementClusterConnection \<noteq> None \<and> managementCluster \<noteq> None
        then \<lparr>RequeueAfter = 0, returned = Some bothErr,
              events = evs @ [SetDegraded (ErrorString bothErr) []]\<rparr>
        else
        (case (if managementCluster \<noteq> None then tunnelSecret N w evs
               else (evs, Inr (None, None))) of
           (evs, Inl e) \<Rightarrow> degrade evs ''Unable to get or create the tunnel secret'' e
         | (evs, Inr (tunnelCASecret, tunnelSecretPassthrough)) \<Rightarrow>
        if amazonCRDExists r then
          (case GetAmazonCloudIntegration w of (amazon, err) \<Rightarrow>
           if IsNotFound err
           then APIServer_render N r w variant managementCluster managementClusterConnection
                  None tunnelCASecret tunnelSecretPassthrough evs
           else if err \<noteq> None
           then degrade evs ''Error reading AmazonCloudIntegration'' (the err)
           else APIServer_render N r w variant managementCluster managementClusterConnection
                  amazon tunnelCASecret tunnelSecretPassthrough evs)
        else APIServer_render N r w variant managementCluster managementClusterConnection
               None tunnelCASecret tunnelSecretPassthrough evs)))
      else APIServer_render N r w variant None None None None None evs)"

text \<open>
  The beginning of the pass. The name of the TLS secret is made from the variant of the
  installation spec (\<open>network.Variant\<close>), which panics on a nil spec; the namespace and the
  enterprise block go by the variant of the status.
\<close>

definition APIServer_Reconcile :: "names \<Rightarrow> ReconcileAPIServer \<Rightarrow> cluster \<Rightarrow> result" where
  "APIServer_Reconcile N r w =
     (case GetAPIServer w of
        (msg, Some e) \<Rightarrow>
          if IsNotFound (Some e)
          then Returned \<lparr>RequeueAfter = 0, returned = None, events = [OnCRNotFound]\<rparr>
          else Returned (degrade [] msg e)
      | (msg, None) \<Rightarrow>
     (case GetInstallation w of
        (variant, network, Some e) \<Rightarrow>
          if IsNotFound (Some e)
          then Returned (degrade [OnCRFound] ''Installation not found'' e)
          else Returned (degrade [OnCRFound] ''Error querying installation'' e)
      | (variant, network, None) \<Rightarrow>
     if variant = []
     then Returned \<lparr>RequeueAfter = 0, returned = None,
           events = [OnCRFound, SetDegraded ''Waiting for Installation to be ready'' []]\<rparr>
     else
     (case certificatemanager_Create w of
        Some e \<Rightarrow> Returned (degrade [OnCRFound] ''Unable to create the Tigera CA'' e)
      | None \<Rightarrow>
     (case network of
        None \<Rightarrow> Panicked [OnCRFound]
      | Some network_Variant \<Rightarrow>
     (case GetOrCreateKeyPair w (ProjectCalicoApiServerTLSSecretName N network_Variant) of
        Some e \<Rightarrow> Returned (degrade [OnCRFound] ''Unable to get or create tls key pair'' e)
      | None \<Rightarrow>
     (case GetNetworkingPullSecrets w of
        Some e \<Rightarrow>
          Returned (degrade [OnCRFound, AddToStatusManager (APIServerNamespace N variant)]
            ''Error retrieving pull secrets'' e)
      | None \<Rightarrow>
          Returned (APIServer_enterprise N r w variant
            [OnCRFound, AddToStatusManager (APIServerNamespace N variant)])))))))"

subsection \<open>The compliance controller\<close>

text \<open>
  \<open>ReconcileCompliance.Reconcile\<close>, in three parts, last first: from the rendering on, from
  the Elasticsearch secrets to the authentication, and the beginning of the pass with the
  check of the two management resources.
\<close>

definition Compliance_render ::
  "names \<Rightarrow> ReconcileCompliance \<Rightarrow> cluster \<Rightarrow> string option \<Rightarrow> string option \<Rightarrow> string option
     \<Rightarrow> event list \<Rightarrow> outcome" where
  "Compliance_render N r w managementCluster managementClusterConnection
       complianceServerCertSecret evs =
     (case GetKeyValidatorConfig w of
        Some e \<Rightarrow> degrade evs ''Failed to process the authentication CR.'' e
      | None \<Rightarrow>
     let hasNoLicense = (\<not> IsFeatureActive w);
         openshift = (Compliance_provider r = operatorv1_ProviderOpenShift N);
         complianceCfg = \<lparr>
           Compliance_ManagementCluster = managementCluster,
           Compliance_ManagementClusterConnection = managementClusterConnection,
           ComplianceServerCertSecret = complianceServerCertSecret,
           Compliance_Openshift = openshift,
           Compliance_HasNoLicense = hasNoLicense,
           Compliance_UsePSP = Compliance_usePSP r\<rparr>;
         comp = ComplianceComponent complianceCfg;
         evs = evs @ [Render comp]
     in case render_Compliance w complianceCfg of
        Some e \<Rightarrow> degrade evs ''Error rendering Compliance'' e
      | None \<Rightarrow>
     (case ApplyImageSet w [comp] of
        Some e \<Rightarrow> degrade (evs @ [ImageSetApplied [comp]]) ''Error with images from ImageSet'' e
      | None \<Rightarrow>
     let certificateComponent = CertificateManagementComponent (ComplianceNamespace N);
         evs = evs @ [ImageSetApplied [comp], Render certificateComponent]
     in case applyComponents w ''Error creating / updating / deleting resource''
               [comp, certificateComponent] evs of
          (evs, Some e) \<Rightarrow> \<lparr>RequeueAfter = 0, returned = Some e, events = evs\<rparr>
        | (evs, None) \<Rightarrow>
            if hasNoLicense
            then \<lparr>RequeueAfter = 0, returned = None,
                  events = evs @ [SetDegraded ''Feature is not active''
                                    ''License does not support this feature'']\<rparr>
            else finish w evs))"

definition Compliance_secrets ::
  "names \<Rightarrow> ReconcileCompliance \<Rightarrow> cluster \<Rightarrow> string option \<Rightarrow> string option \<Rightarrow> string list
     \<Rightarrow> event list \<Rightarrow> outcome" where
  "Compliance_secrets N r w managementCluster managementClusterConnection secretsToWatch evs =
     (case ElasticsearchSecrets w secretsToWatch of
        Some e \<Rightarrow>
          if IsNotFound (Some e)
          then \<lparr>RequeueAfter = 0, returned = None,
                events = evs @ [SetDegraded
                  ''Elasticsearch secrets are not available yet, waiting until they become available''
                  (ErrorString e)]\<rparr>
          else degrade evs ''Failed to get Elasticsearch credentials'' e
      | None \<Rightarrow>
     (case certificatemanager_Create w of
        Some e \<Rightarrow> degrade evs ''Unable to create the Tigera CA'' e
      | None \<Rightarrow>
     (case (if managementCluster \<noteq> None
            then snd (GetCertificate w (ManagerInternalTLSSecretName N)) else None) of
        Some e \<Rightarrow>
          degrade evs (''failed to retrieve / validate  '' @ ManagerInternalTLSSecretName N) e
      | None \<Rightarrow>
     (case GetCertificate w (relasticsearch_PublicCertSecret N) of
        (_, Some e) \<Rightarrow>
          degrade evs (''Failed to retrieve / validate  '' @ relasticsearch_PublicCertSecret N) e
      | (None, None) \<Rightarrow>
          \<lparr>RequeueAfter = 0, returned = None,
           events = evs @ [SetDegraded
             ''Elasticsearch gateway certificate are not available yet, waiting until they become available''
             []]\<rparr>
      | (Some esgwCertificate, None) \<Rightarrow>
     (case (if managementClusterConnection = None
            then GetOrCreateKeyPair w (ComplianceServerCertSecretName N) else None) of
        Some e \<Rightarrow>
          degrade evs (''failed to retrieve / validate  '' @ ComplianceServerCertSecretName N) e
      | None \<Rightarrow>
     let complianceServerCertSecret =
           (if managementClusterConnection = None then Some (ComplianceServerCertSecretName N)
            else None);
         evs = evs @ [AddToStatusManager (ComplianceNamespace N)]
     in case GetAuthentication w of (authenticationCR, err) \<Rightarrow>
        if err \<noteq> None \<and> \<not> IsNotFound err
        then degrade evs ''Error querying Authentication'' (the err)
        else
        (case authenticationCR of
           Some state \<Rightarrow>
             if state \<noteq> TigeraStatusReady N
             then \<lparr>RequeueAfter = 0, returned = None,
                   events = evs @ [SetDegraded ''Authentication is not ready''
                                     (''authenticationCR status: '' @ state)]\<rparr>
             else Compliance_render N r w managementCluster managementClusterConnection
                    complianceServerCertSecret evs
         | None \<Rightarrow>
             Compliance_render N r w managementCluster managementClusterConnection
               complianceServerCertSecret evs))))))"

definition Compliance_Reconcile :: "names \<Rightarrow> ReconcileCompliance \<Rightarrow> cluster \<Rightarrow> outcome" where
  "Compliance_Reconcile N r w =
     (case GetCompliance w of
        Some e \<Rightarrow>
          if IsNotFound (Some e)
          then \<lparr>RequeueAfter = 0, returned = None, events = [OnCRNotFound]\<rparr>
          else degrade [] ''Error querying compliance'' e
      | None \<Rightarrow>
     if \<not> IsAPIServerReady w
     then \<lparr>RequeueAfter = 0, returned = None,
           events = [OnCRFound, SetDegraded ''Waiting for Tigera API server to be ready'' []]\<rparr>
     else if \<not> licenseAPIReady r
     then \<lparr>RequeueAfter = 10, returned = None,
           events = [OnCRFound, SetDegraded ''Waiting for LicenseKeyAPI to be ready'' []]\<rparr>
     else
     (case FetchLicenseKey w of
        Some e \<Rightarrow>
          if IsNotFound (Some e)
          then \<lparr>RequeueAfter = 10, returned = None,
                events = [OnCRFound, SetDegraded ''License not found'' (ErrorString e)]\<rparr>
          else \<lparr>RequeueAfter = 10, returned = None,
                events = [OnCRFound, SetDegraded ''Error querying license'' (ErrorString e)]\<rparr>
      | None \<Rightarrow>
     (case GetInstallation w of
        (variant, network, Some e) \<Rightarrow>
          if IsNotFound (Some e)
          then degrade [OnCRFound] ''Installation not found'' e
          else degrade [OnCRFound] ''Error querying installation'' e
      | (variant, network, None) \<Rightarrow>
     (case GetNetworkingPullSecrets w of
        Some e \<Rightarrow> degrade [OnCRFound] ''Failed to retrieve pull secrets'' e
      | None \<Rightarrow>
     (case GetElasticsearchClusterConfig w of
        Some e \<Rightarrow>
          if IsNotFound (Some e)
          then \<lparr>RequeueAfter = 0, returned = None,
                events = [OnCRFound, SetDegraded
                  ''Elasticsearch cluster configuration is not available, waiting for it to become available''
                  (ErrorString e)]\<rparr>
          else degrade [OnCRFound] ''Failed to get the elasticsearch cluster configuration'' e
      | None \<Rightarrow>
     let secretsToWatch = [
           ElasticsearchComplianceBenchmarkerUserSecret N,
           ElasticsearchComplianceControllerUserSecret N,
           ElasticsearchComplianceReporterUserSecret N,
           ElasticsearchComplianceSnapshotterUserSecret N]
     in case GetManagementCluster w of
        (_, Some e) \<Rightarrow> degrade [OnCRFound] ''Error reading ManagementCluster'' e
      | (managementCluster, None) \<Rightarrow>
     (case GetManagementClusterConnection w of
        (_, Some e) \<Rightarrow> degrade [OnCRFound] ''Error reading ManagementClusterConnection'' e
      | (managementClusterConnection, None) \<Rightarrow>
     if managementClusterConnection \<noteq> None \<and> managementCluster \<noteq> None
     then \<lparr>RequeueAfter = 0, returned = Some bothErr,
           events = [OnCRFound, SetDegraded (ErrorString bothErr) []]\<rparr>
     else
       Compliance_secrets N r w managementCluster managementClusterConnection
         (if managementClusterConnection = None
          then secretsToWatch @ [ElasticsearchComplianceServerUserSecret N]
          else secretsToWatch)
         [OnCRFound]))))))"

section \<open>The ES Gateway renderer\<close>

text \<open>
  The control-plane replica count is an \<open>int32\<close>, read as a signed number; an affinity is
  the pod anti-affinity that \<open>podaffinity.NewPodAntiAffinity\<close> builds for a name and a
  namespace.
\<close>

type_synonym int32 = "32 word"

datatype Affinity = PodAntiAffinity string string

text \<open>
  Modelled from the spec: the ES Gateway renderer (package \<open>esgateway\<close>) is not among the
  sources, only its tests are. The spec says that a workload configured for more than one
  replica gets a scheduling anti-affinity constraint and that for exactly one replica no
  such constraint is added; the tests expect the constraint to be
  \<open>podaffinity.NewPodAntiAffinity(DeploymentName, render.ElasticsearchNamespace)\<close>. The
  definition is the \<open>Affinity\<close> field of the pod template of the rendered deployment, as a
  function of the control-plane replica count.
\<close>

definition esGatewayAffinity :: "string \<Rightarrow> string \<Rightarrow> int32 \<Rightarrow> Affinity option" where
  "esGatewayAffinity DeploymentName ElasticsearchNamespace replicas =
     (if 1 < sint replicas
      then Some (PodAntiAffinity DeploymentName ElasticsearchNamespace)
      else None)"

section \<open>Notions used to state the properties\<close>

text \<open>
  Reading an annotation: a lookup in a nil map finds nothing.
\<close>

definition annotation :: "ObjectMeta \<Rightarrow> string \<Rightarrow> string option" where
  "annotation m k = (case Annotations m of None \<Rightarrow> None | Some a \<Rightarrow> a k)"

text \<open>
  What the theorems about the pod template need from \<open>DecorateAnnotations\<close>: it returns the
  template it was given with the pod spec unchanged, and it writes annotations under the keys
  of a set \<open>E\<close> only.
\<close>

definition decoratesOnly :: "deps \<Rightarrow> string set \<Rightarrow> bool" where
  "decoratesOnly D E \<longleftrightarrow>
     (\<forall>pt cc ss pt'. DecorateAnnotations D pt cc ss = Some pt' \<longrightarrow>
        PodTemplateSpec_Spec pt' = PodTemplateSpec_Spec pt \<and>
        (\<forall>k. k \<notin> E \<longrightarrow>
           annotation (PodTemplateSpec_ObjectMeta pt') k = annotation (PodTemplateSpec_ObjectMeta pt) k))"

text \<open>
  The parts of the two lists that \<open>Objects\<close> builds, named.
\<close>

definition dpiNamespace :: "deps \<Rightarrow> InstallationSpec \<Rightarrow> Object" where
  "dpiNamespace D inst = NamespaceObject (CreateNamespace D DeepPacketInspectionNamespace
     (KubernetesProvider inst) (PSSPrivileged D))"

definition publicCertSecret :: "deps \<Rightarrow> Object" where
  "publicCertSecret D = SecretObject \<lparr>
     Secret_TypeMeta = \<lparr>Kind = ''Secret'', APIVersion = ''v1''\<rparr>,
     Secret_ObjectMeta = \<lparr>Name = PublicCertSecret D, Namespace = DeepPacketInspectionNamespace,
       Labels = None, Annotations = None\<rparr>\<rparr>"

definition copiedSecrets :: "deps \<Rightarrow> Secret list \<Rightarrow> Object list" where
  "copiedSecrets D ss = ToRuntimeObjects D (CopyToNamespace D DeepPacketInspectionNamespace ss)"

definition ownedObjects :: "dpiComponent \<Rightarrow> ClusterRole \<Rightarrow> DaemonSet \<Rightarrow> Object list" where
  "ownedObjects d role ds = [ServiceAccountObject (dpiServiceAccount d), ClusterRoleObject role,
     ClusterRoleBindingObject (dpiClusterRoleBinding d), DaemonSetObject ds]"

text \<open>
  The pod template that \<open>dpiDaemonset\<close> hands to \<open>DecorateAnnotations\<close>, and the pod template of
  a rendered daemonset.
\<close>

definition undecoratedTemplate ::
  "deps \<Rightarrow> DPIConfig \<Rightarrow> KeyPairInterface \<Rightarrow> (string \<rightharpoonup> string) option \<Rightarrow> Container \<Rightarrow> Volume list
     \<Rightarrow> PodTemplateSpec" where
  "undecoratedTemplate D c ns annotations container volumes = \<lparr>
     PodTemplateSpec_ObjectMeta =
       \<lparr>Name = [], Namespace = [], Labels = None, Annotations = annotations\<rparr>,
     PodTemplateSpec_Spec = \<lparr>
       Tolerations = TolerateAll D,
       ImagePullSecrets = GetReferenceList D (PullSecrets c),
       ServiceAccountName = DeepPacketInspectionName,
       TerminationGracePeriodSeconds = Some 0,
       HostNetwork = True,
       PodSpec_DNSPolicy = DNSClusterFirstWithHostNet,
       InitContainers =
         (if UseCertificateManagement ns then [InitContainer ns DeepPacketInspectionNamespace] else []),
       Containers = [container],
       Volumes = volumes\<rparr>\<rparr>"

definition podTemplateOf :: "DaemonSet \<Rightarrow> PodTemplateSpec" where
  "podTemplateOf ds = Template (DaemonSet_Spec ds)"

text \<open>
  What the theorem about the container needs from the two container decorators.
\<close>

definition keepsSecurityContext :: "deps \<Rightarrow> bool" where
  "keepsSecurityContext D \<longleftrightarrow>
     (\<forall>c cluster secret domain os.
        Container_SecurityContext (ContainerDecorate D c cluster secret domain os) =
        Container_SecurityContext c) \<and>
     (\<forall>c replicas shards.
        Container_SecurityContext (ContainerDecorateIndexCreator D c replicas shards) =
        Container_SecurityContext c)"


text \<open>
  The rule that \<open>dpiClusterRole\<close> appends off OpenShift.
\<close>

definition pspUseRule :: PolicyRule where
  "pspUseRule = \<lparr>APIGroups = [''policy''], Resources = [''podsecuritypolicies''],
     Verbs = [''use''], ResourceNames = [DeepPacketInspectionName]\<rparr>"

text \<open>
  The events by which a pass renders or applies something, and those by which it sets the
  status to degraded.
\<close>

fun rendersOrApplies :: "event \<Rightarrow> bool" where
  "rendersOrApplies (Render _) = True"
| "rendersOrApplies (ImageSetApplied _) = True"
| "rendersOrApplies (Applied _) = True"
| "rendersOrApplies _ = False"

fun setsDegraded :: "event \<Rightarrow> bool" where
  "setsDegraded (SetDegraded _ _) = True"
| "setsDegraded _ = False"

text \<open>
  A pass reaches the check of the two management resources when every query before it
  succeeds; the API server controller makes the check under the enterprise variant only,
  and asks for its key pair under the name made from the variant of the installation spec.
\<close>

definition APIServer_reachesCheck :: "names \<Rightarrow> cluster \<Rightarrow> bool" where
  "APIServer_reachesCheck N w \<longleftrightarrow>
     snd (GetAPIServer w) = None \<and>
     (case GetInstallation w of
        (variant, Some network_Variant, None) \<Rightarrow>
          variant = TigeraSecureEnterprise N \<and>
          GetOrCreateKeyPair w (ProjectCalicoApiServerTLSSecretName N network_Variant) = None
      | _ \<Rightarrow> False) \<and>
     TigeraSecureEnterprise N \<noteq> [] \<and>
     certificatemanager_Create w = None \<and>
     GetNetworkingPullSecrets w = None \<and>
     snd (GetManagementCluster w) = None \<and>
     snd (GetManagementClusterConnection w) = None"

definition Compliance_reachesCheck :: "ReconcileCompliance \<Rightarrow> cluster \<Rightarrow> bool" where
  "Compliance_reachesCheck r w \<longleftrightarrow>
     GetCompliance w = None \<and>
     IsAPIServerReady w \<and>
     licenseAPIReady r \<and>
     FetchLicenseKey w = None \<and>
     snd (snd (GetInstallation w)) = None \<and>
     GetNetworkingPullSecrets w = None \<and>
     GetElasticsearchClusterConfig w = None \<and>
     snd (GetManagementCluster w) = None \<and>
     snd (GetManagementClusterConnection w) = None"

text \<open>
  Both a management cluster and a management cluster connection are present in the cluster.
\<close>

definition bothPresent :: "cluster \<Rightarrow> bool" where
  "bothPresent w \<longleftrightarrow>
     fst (GetManagementCluster w) \<noteq> None \<and> fst (GetManagementClusterConnection w) \<noteq> None"

text \<open>
  The configurations on which \<open>Objects\<close> returns: every pointer and interface the renderer
  dereferences is there, the intrusion-detection resource has a first component resource
  with resource requirements, the trusted bundle hands out a map of hash annotations when
  annotations are stamped, and \<open>DecorateAnnotations\<close> returns a pod template.
\<close>

definition wellFormed :: "deps \<Rightarrow> dpiComponent \<Rightarrow> bool" where
  "wellFormed D d \<longleftrightarrow>
     (\<exists>c inst tls tb ns ids cr crs rr es.
        cfg d = Some c \<and> Installation c = Some inst \<and> TyphaNodeTLS c = Some tls \<and>
        TrustedBundle tls = Some tb \<and> NodeSecret tls = Some ns \<and>
        IntrusionDetection c = Some ids \<and>
        ComponentResources (IntrusionDetection_Spec ids) = cr # crs \<and>
        ResourceRequirements cr = Some rr \<and> ESClusterConfig c = Some es \<and>
        (HasNoDPIResource c \<or> HasNoLicense c \<or> HashAnnotations tb \<noteq> None)) \<and>
     (\<forall>pt cc ss. DecorateAnnotations D pt cc ss \<noteq> None)"

text \<open>
  The configurations on which \<open>dpiContainer\<close> returns: the Typha TLS settings with their
  trusted bundle and node secret, the intrusion-detection resource with a first component
  resource that has resource requirements, and the Elasticsearch cluster configuration are
  all there.
\<close>

definition containerInputs :: "DPIConfig \<Rightarrow> bool" where
  "containerInputs c \<longleftrightarrow>
     (case TyphaNodeTLS c of
        None \<Rightarrow> False
      | Some tls \<Rightarrow> TrustedBundle tls \<noteq> None \<and> NodeSecret tls \<noteq> None) \<and>
     (case IntrusionDetection c of
        None \<Rightarrow> False
      | Some ids \<Rightarrow>
          (case ComponentResources (IntrusionDetection_Spec ids) of
             [] \<Rightarrow> False
           | cr # _ \<Rightarrow> ResourceRequirements cr \<noteq> None)) \<and>
     ESClusterConfig c \<noteq> None"

text \<open>
  \<open>dpiAnnotations\<close> writes the entry of the node secret into the map that the trusted bundle
  hands out. \<open>handsOut m d\<close> is the component \<open>d\<close> whose trusted bundle hands out \<open>m\<close>: with
  the map that \<open>dpiAnnotations\<close> returned for \<open>m\<close>, it is the component as a later call
  finds it when the bundle hands out the very map that was written.
\<close>

definition handsOut :: "(string \<rightharpoonup> string) option \<Rightarrow> dpiComponent \<Rightarrow> dpiComponent" where
  "handsOut annotations d = d\<lparr>cfg := map_option (\<lambda>c. c\<lparr>TyphaNodeTLS :=
     map_option (\<lambda>tls. tls\<lparr>TrustedBundle :=
       map_option (\<lambda>tb. tb\<lparr>HashAnnotations := annotations\<rparr>) (TrustedBundle tls)\<rparr>)
       (TyphaNodeTLS c)\<rparr>) (cfg d)\<rparr>"

section \<open>A sample environment and sample configurations\<close>

text \<open>
  One implementation of the helpers and one family of configurations, on which the
  renderer is run.
\<close>

definition sampleDeps :: deps where
  "sampleDeps = \<lparr>
     CreateNamespace = (\<lambda>name provider pss. \<lparr>
       Namespace_TypeMeta = \<lparr>Kind = ''Namespace'', APIVersion = ''v1''\<rparr>,
       Namespace_ObjectMeta = \<lparr>Name = name, Namespace = [], Labels = None, Annotations = None\<rparr>\<rparr>),
     PSSPrivileged = ''privileged'',
     PublicCertSecret = ''tigera-secure-es-gateway-http-certs-public'',
     CopyToNamespace = (\<lambda>ns. map (\<lambda>s. s\<lparr>Secret_ObjectMeta :=
       \<lparr>Name = Name (Secret_ObjectMeta s), Namespace = ns, Labels = None, Annotations = None\<rparr>\<rparr>)),
     ToRuntimeObjects = map SecretObject,
     GetReferenceList = map (\<lambda>s. Name (Secret_ObjectMeta s)),
     DecorateAnnotations = (\<lambda>pt cc ss. Some (pt\<lparr>PodTemplateSpec_ObjectMeta :=
       (PodTemplateSpec_ObjectMeta pt)\<lparr>Annotations :=
          Some ((case Annotations (PodTemplateSpec_ObjectMeta pt) of None \<Rightarrow> Map.empty | Some a \<Rightarrow> a)
                (''hash.operator.tigera.io/elasticsearch-configmap'' \<mapsto> ''c0ffee''))\<rparr>\<rparr>)),
     ContainerDecorate = (\<lambda>c cluster secret domain os. c\<lparr>Env := Env c @ [
       \<lparr>EnvVar_Name = ''ELASTIC_INDEX_SUFFIX'', EnvVar_Value = cluster, ValueFrom_FieldPath = None\<rparr>]\<rparr>),
     ContainerDecorateIndexCreator = (\<lambda>c replicas shards. c),
     ElasticsearchIntrusionDetectionUserSecret = ''tigera-ee-intrusion-detection-elasticsearch-access'',
     CalicoNamespace = ''calico-system'',
     TyphaServiceName = ''calico-typha'',
     TolerateAll = [\<lparr>Toleration_Key = [], Toleration_Operator = ''Exists'', Toleration_Effect = []\<rparr>],
     ProviderOpenShift = ''OpenShift'',
     OSTypeLinux = ''linux'',
     ComponentDeepPacketInspection = ''tigera/deep-packet-inspection'',
     GetReference = (\<lambda>component registry imagePath imagePrefix is.
       (registry @ component @ '':v1'', None))\<rparr>"

definition sampleKeyPair :: "bool \<Rightarrow> KeyPairInterface" where
  "sampleKeyPair certificateManagement = \<lparr>
     UseCertificateManagement = certificateManagement,
     InitContainer = (\<lambda>ns. \<lparr>
       Container_Name = ''node-certs-key-cert-provisioner'',
       Image = ''tigera/key-cert-provisioner'',
       Container_Resources = \<lparr>Limits = [], Requests = []\<rparr>,
       Env = [\<lparr>EnvVar_Name = ''POD_NAMESPACE'', EnvVar_Value = ns, ValueFrom_FieldPath = None\<rparr>],
       VolumeMounts = [\<lparr>VolumeMount_Name = ''node-certs'', MountPath = ''/node-certs'', ReadOnly = False\<rparr>],
       Container_SecurityContext = None,
       ReadinessProbe = None\<rparr>),
     KeyPair_Volume = \<lparr>Volume_Name = ''node-certs'',
       Volume_VolumeSource = (if certificateManagement then EmptyDirSource else SecretSource ''node-certs'')\<rparr>,
     KeyPair_VolumeMount = (\<lambda>os. \<lparr>VolumeMount_Name = ''node-certs'', MountPath = ''/node-certs'', ReadOnly = True\<rparr>),
     VolumeMountCertificateFilePath = ''/node-certs/tls.crt'',
     VolumeMountKeyFilePath = ''/node-certs/tls.key'',
     HashAnnotationKey = ''hash.operator.tigera.io/node-certs'',
     HashAnnotationValue = ''5e1f''\<rparr>"

definition sampleTrustedBundle :: TrustedBundle where
  "sampleTrustedBundle = \<lparr>
     TrustedBundle_Volume = \<lparr>Volume_Name = ''tigera-ca-bundle'',
       Volume_VolumeSource = ConfigMapSource ''tigera-ca-bundle''\<rparr>,
     TrustedBundle_VolumeMount = (\<lambda>os. \<lparr>VolumeMount_Name = ''tigera-ca-bundle'',
       MountPath = ''/etc/pki/tls/certs/'', ReadOnly = True\<rparr>),
     TrustedBundle_MountPath = ''/etc/pki/tls/certs/tigera-ca-bundle.crt'',
     HashAnnotations = Some [''hash.operator.tigera.io/tigera-ca-private'' \<mapsto> ''ab12'']\<rparr>"

definition sampleSecret :: "string \<Rightarrow> string \<Rightarrow> Secret" where
  "sampleSecret name ns = \<lparr>
     Secret_TypeMeta = \<lparr>Kind = ''Secret'', APIVersion = ''v1''\<rparr>,
     Secret_ObjectMeta = \<lparr>Name = name, Namespace = ns, Labels = None, Annotations = None\<rparr>\<rparr>"

definition sampleConfig :: "bool \<Rightarrow> bool \<Rightarrow> bool \<Rightarrow> bool \<Rightarrow> DPIConfig" where
  "sampleConfig noLicense noDPIResource certificateManagement openshift = \<lparr>
     IntrusionDetection = Some \<lparr>IntrusionDetection_Spec = \<lparr>ComponentResources = [
       \<lparr>ComponentName = ''DeepPacketInspection'',
        ResourceRequirements = Some \<lparr>
          Limits = [(''cpu'', ''1''), (''memory'', ''1Gi'')],
          Requests = [(''cpu'', ''100m''), (''memory'', ''100Mi'')]\<rparr>\<rparr>]\<rparr>\<rparr>,
     Installation = Some \<lparr>
       KubernetesProvider = (if openshift then ''OpenShift'' else []),
       Registry = ''testregistry.com/'', ImagePath = [], ImagePrefix = []\<rparr>,
     TyphaNodeTLS = Some \<lparr>
       TrustedBundle = Some sampleTrustedBundle,
       NodeSecret = Some (sampleKeyPair certificateManagement),
       TyphaCommonName = ''typha-server'',
       TyphaURISAN = []\<rparr>,
     PullSecrets = [sampleSecret ''tigera-pull-secret'' ''tigera-operator''],
     Openshift = openshift,
     HasNoLicense = noLicense,
     HasNoDPIResource = noDPIResource,
     ESSecrets = [sampleSecret ''tigera-ee-intrusion-detection-elasticsearch-access'' ''tigera-operator''],
     ESClusterConfig = Some \<lparr>ClusterName = ''cluster'', Replicas = 1, Shards = 1\<rparr>,
     ClusterDomain = ''cluster.local''\<rparr>"


text \<open>
  Sample names, and sample reconcilers.
\<close>

definition sampleNames :: names where
  "sampleNames = \<lparr>
     operatorv1_ProviderOpenShift = ''OpenShift'',
     TigeraSecureEnterprise = ''TigeraSecureEnterprise'',
     TigeraStatusReady = ''Ready'',
     APIServerNamespace = (\<lambda>variant. if variant = ''TigeraSecureEnterprise''
                                      then ''tigera-system'' else ''calico-apiserver''),
     ProjectCalicoApiServerTLSSecretName = (\<lambda>variant. if variant = ''TigeraSecureEnterprise''
                                      then ''tigera-apiserver-certs'' else ''calico-apiserver-certs''),
     VoltronTunnelSecretName = ''tigera-management-cluster-connection'',
     PacketCaptureCertSecret = ''tigera-packetcapture-server-tls'',
     PacketCaptureNamespace = ''tigera-packetcapture'',
     ManagerInternalTLSSecretName = ''internal-manager-tls'',
     relasticsearch_PublicCertSecret = ''tigera-secure-es-gateway-http-certs-public'',
     ComplianceServerCertSecretName = ''tigera-compliance-server-tls'',
     ComplianceNamespace = ''tigera-compliance'',
     ElasticsearchComplianceBenchmarkerUserSecret = ''tigera-ee-compliance-benchmarker-elasticsearch-access'',
     ElasticsearchComplianceControllerUserSecret = ''tigera-ee-compliance-controller-elasticsearch-access'',
     ElasticsearchComplianceReporterUserSecret = ''tigera-ee-compliance-reporter-elasticsearch-access'',
     ElasticsearchComplianceSnapshotterUserSecret = ''tigera-ee-compliance-snapshotter-elasticsearch-access'',
     ElasticsearchComplianceServerUserSecret = ''tigera-ee-compliance-server-elasticsearch-access''\<rparr>"

text \<open>
  A cluster in which every query succeeds and both a management cluster and a management
  cluster connection are present, under a given variant of the status and of the spec.
\<close>

definition sampleCluster :: "string \<Rightarrow> cluster" where
  "sampleCluster variant = \<lparr>
     GetAPIServer = ([], None),
     GetCompliance = None,
     IsAPIServerReady = True,
     FetchLicenseKey = None,
     IsFeatureActive = True,
     GetInstallation = (variant, Some variant, None),
     GetNetworkingPullSecrets = None,
     GetElasticsearchClusterConfig = None,
     GetManagementCluster = (Some ''tigera-secure'', None),
     GetManagementClusterConnection = (Some ''tigera-secure'', None),
     ElasticsearchSecrets = (\<lambda>secrets. None),
     certificatemanager_Create = None,
     GetOrCreateKeyPair = (\<lambda>name. None),
     GetKeyPair = (\<lambda>name. (Some name, None)),
     GetCertificate = (\<lambda>name. (Some name, None)),
     CreateSelfSignedSecret = None,
     GetAmazonCloudIntegration = (None, Some (Err True ''not found'')),
     GetK8sServiceEndPoint = None,
     GetAuthentication = (None, Some (Err True ''not found'')),
     GetKeyValidatorConfig = None,
     render_APIServer = (\<lambda>cfg. None),
     render_Compliance = (\<lambda>cfg. None),
     ApplyImageSet = (\<lambda>components. None),
     CreateOrUpdateOrDelete = (\<lambda>component. None),
     IsAvailable = True,
     Status_Update = None\<rparr>"

text \<open>
  The same cluster with an installation whose status says enterprise and whose spec says
  Calico, and in which only the key pair named after the spec can be had.
\<close>

definition sampleSplitCluster :: cluster where
  "sampleSplitCluster = (sampleCluster ''TigeraSecureEnterprise'')\<lparr>
     GetInstallation := (''TigeraSecureEnterprise'', Some ''Calico'', None),
     GetOrCreateKeyPair := (\<lambda>name. if name = ''calico-apiserver-certs'' then None
                                    else Some (Err False ''no such key pair''))\<rparr>"

definition sampleAPIServer :: ReconcileAPIServer where
  "sampleAPIServer = \<lparr>APIServer_provider = [], amazonCRDExists = False, APIServer_usePSP = False\<rparr>"

definition sampleCompliance :: "bool \<Rightarrow> ReconcileCompliance" where
  "sampleCompliance ready =
     \<lparr>Compliance_provider = [], licenseAPIReady = ready, Compliance_usePSP = False\<rparr>"

section \<open>Evaluation and shape lemmas\<close>

lemmas sample_defs = sampleDeps_def sampleKeyPair_def sampleTrustedBundle_def sampleSecret_def sampleConfig_def
lemmas dpi_defs = Objects_def dpiDaemonset_def dpiContainer_def dpiVolumes_def dpiEnvVars_def dpiVolumeMounts_def
  dpiReadinessProbes_def dpiServiceAccount_def dpiClusterRoleBinding_def dpiClusterRole_def dpiAnnotations_def
  DPI_def SupportedOSType_def DeepPacketInspectionNamespace_def DeepPacketInspectionName_def

lemma Objects_SomeE:
  assumes "Objects D d = Some (tc, td)"
  obtains c inst role ds where "cfg d = Some c" "Installation c = Some inst"
    "dpiClusterRole D d = Some role" "dpiDaemonset D d = Some ds"
    "tc = (if HasNoLicense c then []
           else dpiNamespace D inst #
             (if HasNoDPIResource c then []
              else copiedSecrets D (ESSecrets c) @ copiedSecrets D (PullSecrets c) @ ownedObjects d role ds))"
    "td = (if HasNoLicense c then [dpiNamespace D inst] else []) @
          (if HasNoDPIResource c \<or> HasNoLicense c
           then publicCertSecret D # copiedSecrets D (PullSecrets c) @ ownedObjects d role ds
           else [])"
  using assms
  by (auto simp: Objects_def Let_def dpiNamespace_def publicCertSecret_def copiedSecrets_def ownedObjects_def
      split: Option.bind_splits if_splits)

lemma kind_copiedSecrets:
  assumes "\<And>ss x. x \<in> set (ToRuntimeObjects D ss) \<Longrightarrow> kindOf x = ''Secret''"
    and "x \<in> set (copiedSecrets D ss)"
  shows "kindOf x = ''Secret''"
  using assms by (simp add: copiedSecrets_def)

lemma dpiDaemonset_SomeE:
  assumes "dpiDaemonset D d = Some ds"
  obtains c tls ns ann ctr vols where "cfg d = Some c" "TyphaNodeTLS c = Some tls"
    "NodeSecret tls = Some ns" "dpiAnnotations d = Some ann" "dpiContainer D d = Some ctr"
    "dpiVolumes d = Some vols"
    "DecorateAnnotations D (undecoratedTemplate D c ns ann ctr vols) (ESClusterConfig c) (ESSecrets c)
       = Some (podTemplateOf ds)"
  using assms
  by (auto simp: dpiDaemonset_def Let_def undecoratedTemplate_def podTemplateOf_def
      split: Option.bind_splits if_splits)

lemma dpiAnnotations_prereq:
  assumes "cfg d = Some c" "\<not> HasNoLicense c" "\<not> HasNoDPIResource c" "dpiAnnotations d = Some ann"
  obtains tls tb ns m where "TyphaNodeTLS c = Some tls" "TrustedBundle tls = Some tb"
    "NodeSecret tls = Some ns" "HashAnnotations tb = Some m"
    "ann = Some (m(HashAnnotationKey ns \<mapsto> HashAnnotationValue ns))"
  using assms
  by (auto simp: dpiAnnotations_def split: Option.bind_splits option.splits)

lemma dpiAnnotations_gated:
  assumes "cfg d = Some c" "HasNoDPIResource c \<or> HasNoLicense c"
  shows "dpiAnnotations d = Some None"
  using assms by (auto simp: dpiAnnotations_def)

lemma dpiVolumes_SomeE:
  assumes "dpiVolumes d = Some vols" "cfg d = Some c" "TyphaNodeTLS c = Some tls"
  obtains tb ns where "TrustedBundle tls = Some tb" "NodeSecret tls = Some ns"
    "vols = [TrustedBundle_Volume tb, KeyPair_Volume ns,
       \<lparr>Volume_Name = ''log-snort-alters'',
        Volume_VolumeSource = HostPath ''/var/log/calico/snort-alerts'' (Some HostPathDirectoryOrCreate)\<rparr>]"
  using assms
  by (auto simp: dpiVolumes_def split: Option.bind_splits)

lemma decoratesOnly_spec:
  assumes "decoratesOnly D E" "DecorateAnnotations D pt cc ss = Some pt'"
  shows "PodTemplateSpec_Spec pt' = PodTemplateSpec_Spec pt"
  using assms unfolding decoratesOnly_def by blast

lemma decoratesOnly_annotation:
  assumes "decoratesOnly D E" "DecorateAnnotations D pt cc ss = Some pt'" "k \<notin> E"
  shows "annotation (PodTemplateSpec_ObjectMeta pt') k = annotation (PodTemplateSpec_ObjectMeta pt) k"
  using assms unfolding decoratesOnly_def by blast

lemma sample_decoratesOnly:
  "decoratesOnly sampleDeps {''hash.operator.tigera.io/elasticsearch-configmap''}"
  by (auto simp: decoratesOnly_def sampleDeps_def annotation_def split: option.splits)

lemma sample_keepsSecurityContext: "keepsSecurityContext sampleDeps"
  by (simp add: keepsSecurityContext_def sampleDeps_def)

lemma sample_secrets:
  "x \<in> set (ToRuntimeObjects sampleDeps ss) \<Longrightarrow> kindOf x = ''Secret''"
  by (auto simp: sampleDeps_def)

lemma sample_Objects_Some:
  "Objects sampleDeps (DPI (Some (sampleConfig l r m os))) \<noteq> None"
  by (simp add: sample_defs dpi_defs Let_def)

lemma sample_dpiDaemonset_Some:
  "dpiDaemonset sampleDeps (DPI (Some (sampleConfig l r m os))) \<noteq> None"
  by (simp add: sample_defs dpi_defs Let_def)

lemma sample_dpiContainer_Some:
  "dpiContainer sampleDeps (DPI (Some (sampleConfig l r m os))) \<noteq> None"
  by (simp add: sample_defs dpi_defs Let_def)

lemma sample_dpiClusterRole_Some:
  "dpiClusterRole sampleDeps (DPI (Some (sampleConfig l r m os))) \<noteq> None"
  by (simp add: sample_defs dpi_defs Let_def)

lemma ResolveImages_SomeE:
  assumes "ResolveImages D d is = Some (d', e)"
  obtains c inst where "cfg d = Some c" "Installation c = Some inst"
    "d' = d\<lparr>dpiImage := fst (GetReference D (ComponentDeepPacketInspection D)
             (Registry inst) (ImagePath inst) (ImagePrefix inst) is)\<rparr>"
    "e = snd (GetReference D (ComponentDeepPacketInspection D)
             (Registry inst) (ImagePath inst) (ImagePrefix inst) is)"
  using assms
  by (auto simp: ResolveImages_def split: Option.bind_splits prod.splits)

lemma dpiContainer_SecurityContext:
  assumes "keepsSecurityContext D" "cfg d = Some c" "dpiContainer D d = Some ctr"
  shows "Container_SecurityContext ctr = Some \<lparr>Privileged = Some (Openshift c)\<rparr>"
  using assms
  by (auto simp: dpiContainer_def keepsSecurityContext_def Let_def split: Option.bind_splits)

lemma dpiClusterRole_Rules:
  assumes "cfg d = Some c" "Installation c = Some inst" "dpiClusterRole D d = Some role"
  shows "(pspUseRule \<in> set (Rules role)) = (KubernetesProvider inst \<noteq> ProviderOpenShift D)"
  using assms
  by (auto simp: dpiClusterRole_def pspUseRule_def Let_def split: Option.bind_splits)

lemma DaemonSet_position:
  assumes "\<forall>x \<in> set xs. kindOf x \<noteq> ''DaemonSet''" "i < length (xs @ [y])"
    "kindOf ((xs @ [y]) ! i) = ''DaemonSet''"
  shows "Suc i = length (xs @ [y])"
  using assms by (cases "i < length xs") (auto simp: nth_append)

lemmas controller_defs = APIServer_Reconcile_def APIServer_enterprise_def APIServer_render_def
  APIServer_apply_def tunnelSecret_def Compliance_Reconcile_def Compliance_secrets_def
  Compliance_render_def finish_def degrade_def bothErr_def Let_def
lemmas sample_controller_defs = sampleNames_def sampleCluster_def sampleAPIServer_def
  sampleCompliance_def

lemma bothPresentE:
  assumes "bothPresent w"
  obtains mc mcc e e' where "GetManagementCluster w = (Some mc, e)"
    "GetManagementClusterConnection w = (Some mcc, e')"
  using assms unfolding bothPresent_def
  by (cases "GetManagementCluster w"; cases "GetManagementClusterConnection w") auto

lemma events_degrade [simp]:
  "list_ex rendersOrApplies (events (degrade evs msg e)) = list_ex rendersOrApplies evs"
  by (simp add: degrade_def)

lemma APIServer_enterprise_both:
  assumes "GetManagementCluster w = (Some mc, e)" "GetManagementClusterConnection w = (Some mcc, e')"
  shows "APIServer_enterprise N r w (TigeraSecureEnterprise N) evs =
     (case e of Some x \<Rightarrow> degrade evs ''Error reading ManagementCluster'' x
      | None \<Rightarrow> (case e' of Some x \<Rightarrow> degrade evs ''Error reading ManagementClusterConnection'' x
         | None \<Rightarrow> \<lparr>RequeueAfter = 0, returned = Some bothErr,
              events = evs @ [SetDegraded (ErrorString bothErr) []]\<rparr>))"
  using assms by (simp add: APIServer_enterprise_def split: option.split)

lemma APIServer_check:
  assumes "bothPresent w" "APIServer_reachesCheck N w"
  shows "APIServer_Reconcile N r w = Returned
     \<lparr>RequeueAfter = 0, returned = Some bothErr,
      events = [OnCRFound, AddToStatusManager (APIServerNamespace N (TigeraSecureEnterprise N)),
                SetDegraded (ErrorString bothErr) []]\<rparr>"
proof (rule bothPresentE[OF assms(1)])
  fix mc mcc e e'
  assume m: "GetManagementCluster w = (Some mc, e)" "GetManagementClusterConnection w = (Some mcc, e')"
  with assms(2) have "e = None" "e' = None" by (simp_all add: APIServer_reachesCheck_def)
  moreover from assms(2) obtain nv where
    "GetInstallation w = (TigeraSecureEnterprise N, Some nv, None)"
    "GetOrCreateKeyPair w (ProjectCalicoApiServerTLSSecretName N nv) = None"
    by (auto simp: APIServer_reachesCheck_def split: prod.splits option.splits)
  ultimately show ?thesis
    using assms(2) APIServer_enterprise_both[OF m]
    by (cases "GetAPIServer w") (simp add: APIServer_reachesCheck_def APIServer_Reconcile_def)
qed

lemma APIServer_no_render:
  assumes "bothPresent w" "fst (GetInstallation w) = TigeraSecureEnterprise N"
  shows "\<not> list_ex rendersOrApplies (trace (APIServer_Reconcile N r w))"
proof (rule bothPresentE[OF assms(1)])
  fix mc mcc e e'
  assume m: "GetManagementCluster w = (Some mc, e)" "GetManagementClusterConnection w = (Some mcc, e')"
  from assms(2) obtain nw ei where i: "GetInstallation w = (TigeraSecureEnterprise N, nw, ei)"
    by (cases "GetInstallation w") auto
  show ?thesis
    by (cases "GetAPIServer w")
       (simp add: APIServer_Reconcile_def i APIServer_enterprise_both[OF m]
          split: option.split)
qed

lemma APIServer_asks_by_spec_variant:
  assumes "snd (GetAPIServer w) = None"
    and "GetInstallation w = (variant, Some network_Variant, None)" and "variant \<noteq> []"
    and "certificatemanager_Create w = None"
    and "GetOrCreateKeyPair w (ProjectCalicoApiServerTLSSecretName N network_Variant) = Some e"
  shows "APIServer_Reconcile N r w =
     Returned (degrade [OnCRFound] ''Unable to get or create tls key pair'' e)"
  using assms by (cases "GetAPIServer w") (simp add: APIServer_Reconcile_def)

lemma Compliance_both:
  assumes "GetManagementCluster w = (Some mc, e)" "GetManagementClusterConnection w = (Some mcc, e')"
  shows "Compliance_Reconcile N r w =
     (case GetCompliance w of
        Some e \<Rightarrow>
          if IsNotFound (Some e)
          then \<lparr>RequeueAfter = 0, returned = None, events = [OnCRNotFound]\<rparr>
          else degrade [] ''Error querying compliance'' e
      | None \<Rightarrow>
     if \<not> IsAPIServerReady w
     then \<lparr>RequeueAfter = 0, returned = None,
           events = [OnCRFound, SetDegraded ''Waiting for Tigera API server to be ready'' []]\<rparr>
     else if \<not> licenseAPIReady r
     then \<lparr>RequeueAfter = 10, returned = None,
           events = [OnCRFound, SetDegraded ''Waiting for LicenseKeyAPI to be ready'' []]\<rparr>
     else
     (case FetchLicenseKey w of
        Some e \<Rightarrow>
          if IsNotFound (Some e)
          then \<lparr>RequeueAfter = 10, returned = None,
                events = [OnCRFound, SetDegraded ''License not found'' (ErrorString e)]\<rparr>
          else \<lparr>RequeueAfter = 10, returned = None,
                events = [OnCRFound, SetDegraded ''Error querying license'' (ErrorString e)]\<rparr>
      | None \<Rightarrow>
     (case snd (snd (GetInstallation w)) of
        Some e \<Rightarrow>
          if IsNotFound (Some e)
          then degrade [OnCRFound] ''Installation not found'' e
          else degrade [OnCRFound] ''Error querying installation'' e
      | None \<Rightarrow>
     (case GetNetworkingPullSecrets w of
        Some e \<Rightarrow> degrade [OnCRFound] ''Failed to retrieve pull secrets'' e
      | None \<Rightarrow>
     (case GetElasticsearchClusterConfig w of
        Some e \<Rightarrow>
          if IsNotFound (Some e)
          then \<lparr>RequeueAfter = 0, returned = None,
                events = [OnCRFound, SetDegraded
                  ''Elasticsearch cluster configuration is not available, waiting for it to become available''
                  (ErrorString e)]\<rparr>
          else degrade [OnCRFound] ''Failed to get the elasticsearch cluster configuration'' e
      | None \<Rightarrow>
     (case e of Some x \<Rightarrow> degrade [OnCRFound] ''Error reading ManagementCluster'' x
      | None \<Rightarrow> (case e' of Some x \<Rightarrow> degrade [OnCRFound] ''Error reading ManagementClusterConnection'' x
         | None \<Rightarrow> \<lparr>RequeueAfter = 0, returned = Some bothErr,
              events = [OnCRFound, SetDegraded (ErrorString bothErr) []]\<rparr>)))))))"
  using assms
  by (cases "GetInstallation w")
     (simp add: Compliance_Reconcile_def Let_def split: option.split)

lemma Compliance_check:
  assumes "bothPresent w" "Compliance_reachesCheck r w"
  shows "Compliance_Reconcile N r w =
     \<lparr>RequeueAfter = 0, returned = Some bothErr,
      events = [OnCRFound, SetDegraded (ErrorString bothErr) []]\<rparr>"
proof (rule bothPresentE[OF assms(1)])
  fix mc mcc e e'
  assume m: "GetManagementCluster w = (Some mc, e)" "GetManagementClusterConnection w = (Some mcc, e')"
  with assms(2) have "e = None" "e' = None" by (simp_all add: Compliance_reachesCheck_def)
  with assms(2) show ?thesis
    by (simp add: Compliance_both[OF m] Compliance_reachesCheck_def)
qed

lemma Compliance_no_render:
  assumes "bothPresent w"
  shows "\<not> list_ex rendersOrApplies (events (Compliance_Reconcile N r w))"
proof (rule bothPresentE[OF assms(1)])
  fix mc mcc e e'
  assume m: "GetManagementCluster w = (Some mc, e)" "GetManagementClusterConnection w = (Some mcc, e')"
  show ?thesis
    by (simp add: Compliance_both[OF m] split: option.split)
qed

lemma Objects_returns:
  assumes "wellFormed D d"
  shows "\<exists>toCreate toDelete. Objects D d = Some (toCreate, toDelete)"
proof -
  from assms obtain c inst tls tb ns ids cr crs rr es where
    c: "cfg d = Some c" and i: "Installation c = Some inst" and t: "TyphaNodeTLS c = Some tls"
    and b: "TrustedBundle tls = Some tb" and n: "NodeSecret tls = Some ns"
    and ids: "IntrusionDetection c = Some ids"
    and cr: "ComponentResources (IntrusionDetection_Spec ids) = cr # crs"
    and rr: "ResourceRequirements cr = Some rr" and es: "ESClusterConfig c = Some es"
    and h: "HasNoDPIResource c \<or> HasNoLicense c \<or> HashAnnotations tb \<noteq> None"
    and dec: "\<And>pt cc ss. DecorateAnnotations D pt cc ss \<noteq> None"
    unfolding wellFormed_def by blast
  have role: "dpiClusterRole D d \<noteq> None"
    by (simp add: dpiClusterRole_def c i Let_def)
  have ann: "dpiAnnotations d \<noteq> None"
    using h by (auto simp: dpiAnnotations_def c t b n)
  have env: "dpiEnvVars D d \<noteq> None"
    by (simp add: dpiEnvVars_def c t b n Let_def)
  have vms: "dpiVolumeMounts D d \<noteq> None"
    by (simp add: dpiVolumeMounts_def c t b n)
  have vols: "dpiVolumes d \<noteq> None"
    by (simp add: dpiVolumes_def c t b n)
  from env vms have ctr: "dpiContainer D d \<noteq> None"
    by (auto simp: dpiContainer_def c ids cr rr es Let_def)
  from ann ctr vols obtain a k v where a: "dpiAnnotations d = Some a"
    and k: "dpiContainer D d = Some k" and v: "dpiVolumes d = Some v"
    by auto
  from dec[of "undecoratedTemplate D c ns a k v" "ESClusterConfig c" "ESSecrets c"]
  obtain pt where "DecorateAnnotations D (undecoratedTemplate D c ns a k v)
      (ESClusterConfig c) (ESSecrets c) = Some pt"
    by auto
  then have ds: "dpiDaemonset D d \<noteq> None"
    by (cases "UseCertificateManagement ns")
       (simp_all add: dpiDaemonset_def c t n a k v Let_def undecoratedTemplate_def)
  from role ds show ?thesis
    by (auto simp: Objects_def c i Let_def)
qed

lemma dpiContainer_returns:
  assumes "cfg d = Some c"
  shows "(dpiContainer D d \<noteq> None) = containerInputs c"
  using assms
  by (auto simp: dpiContainer_def dpiEnvVars_def dpiVolumeMounts_def containerInputs_def Let_def
      split: Option.bind_splits option.splits list.splits)

lemma dpiClusterRole_returns:
  assumes "cfg d = Some c" "Installation c = Some inst"
  shows "dpiClusterRole D d = Some \<lparr>
       ClusterRole_TypeMeta = \<lparr>Kind = ''ClusterRole'', APIVersion = ''rbac.authorization.k8s.io/v1''\<rparr>,
       ClusterRole_ObjectMeta =
         \<lparr>Name = DeepPacketInspectionName, Namespace = [], Labels = None, Annotations = None\<rparr>,
       Rules = [
         \<lparr>APIGroups = [''crd.projectcalico.org''],
          Resources = [''deeppacketinspections''],
          Verbs = [''get'', ''list'', ''watch''],
          ResourceNames = []\<rparr>,
         \<lparr>APIGroups = [''crd.projectcalico.org''],
          Resources = [''deeppacketinspections/status''],
          Verbs = [''update''],
          ResourceNames = []\<rparr>,
         \<lparr>APIGroups = [[]],
          Resources = [''endpoints'', ''services''],
          Verbs = [''watch'', ''list'', ''get''],
          ResourceNames = []\<rparr>] @
         (if KubernetesProvider inst \<noteq> ProviderOpenShift D then [pspUseRule] else [])\<rparr>"
  using assms by (simp add: dpiClusterRole_def pspUseRule_def Let_def)

lemma sample_containerInputs: "containerInputs (sampleConfig l r m os)"
  by (simp add: containerInputs_def sampleConfig_def)

lemma dpiClusterRole_cfg:
  "cfg d1 = cfg d2 \<Longrightarrow> dpiClusterRole D d1 = dpiClusterRole D d2"
  by (simp add: dpiClusterRole_def)

lemma dpiDaemonset_meta:
  assumes "dpiDaemonset D d = Some ds"
  shows "identity (DaemonSetObject ds) =
           (''DaemonSet'', DeepPacketInspectionNamespace, DeepPacketInspectionName)"
  using assms
  by (auto simp: dpiDaemonset_def identity_def Let_def split: Option.bind_splits)

lemma ownedObjects_front:
  "ownedObjects d role ds =
     [ServiceAccountObject (dpiServiceAccount d0), ClusterRoleObject role,
      ClusterRoleBindingObject (dpiClusterRoleBinding d0)] @ [DaemonSetObject ds]"
  by (simp add: ownedObjects_def dpiServiceAccount_def dpiClusterRoleBinding_def)

lemma Objects_same_cfg:
  assumes eq: "cfg d1 = cfg d2"
    and o1: "Objects D d1 = Some (tc1, td1)" and o2: "Objects D d2 = Some (tc2, td2)"
  shows "\<exists>c ds1 ds2 front.
        cfg d1 = Some c \<and> dpiDaemonset D d1 = Some ds1 \<and> dpiDaemonset D d2 = Some ds2 \<and>
        identity (DaemonSetObject ds1) = identity (DaemonSetObject ds2) \<and>
        (if HasNoDPIResource c \<or> HasNoLicense c
         then tc1 = tc2 \<and> td1 = front @ [DaemonSetObject ds1] \<and> td2 = front @ [DaemonSetObject ds2]
         else td1 = td2 \<and> tc1 = front @ [DaemonSetObject ds1] \<and> tc2 = front @ [DaemonSetObject ds2])"
proof (rule Objects_SomeE[OF o1])
  fix c inst role ds
  assume c: "cfg d1 = Some c" and i: "Installation c = Some inst"
    and r: "dpiClusterRole D d1 = Some role" and ds: "dpiDaemonset D d1 = Some ds"
    and tc1: "tc1 = (if HasNoLicense c then []
           else dpiNamespace D inst #
             (if HasNoDPIResource c then []
              else copiedSecrets D (ESSecrets c) @ copiedSecrets D (PullSecrets c) @ ownedObjects d1 role ds))"
    and td1: "td1 = (if HasNoLicense c then [dpiNamespace D inst] else []) @
          (if HasNoDPIResource c \<or> HasNoLicense c
           then publicCertSecret D # copiedSecrets D (PullSecrets c) @ ownedObjects d1 role ds
           else [])"
  show ?thesis
  proof (rule Objects_SomeE[OF o2])
    fix c' inst' role' ds'
    assume c': "cfg d2 = Some c'" and i': "Installation c' = Some inst'"
      and r': "dpiClusterRole D d2 = Some role'" and ds': "dpiDaemonset D d2 = Some ds'"
      and tc2: "tc2 = (if HasNoLicense c' then []
           else dpiNamespace D inst' #
             (if HasNoDPIResource c' then []
              else copiedSecrets D (ESSecrets c') @ copiedSecrets D (PullSecrets c') @ ownedObjects d2 role' ds'))"
      and td2: "td2 = (if HasNoLicense c' then [dpiNamespace D inst'] else []) @
          (if HasNoDPIResource c' \<or> HasNoLicense c'
           then publicCertSecret D # copiedSecrets D (PullSecrets c') @ ownedObjects d2 role' ds'
           else [])"
    from eq c c' have cc: "c' = c" by simp
    with i i' have ii: "inst' = inst" by simp
    from r r' dpiClusterRole_cfg[OF eq, of D] have rr: "role' = role" by simp
    let ?three = "[ServiceAccountObject (dpiServiceAccount d1), ClusterRoleObject role,
      ClusterRoleBindingObject (dpiClusterRoleBinding d1)]"
    have id: "identity (DaemonSetObject ds) = identity (DaemonSetObject ds')"
      by (simp add: dpiDaemonset_meta[OF ds] dpiDaemonset_meta[OF ds'])
    show ?thesis
    proof (cases "HasNoDPIResource c \<or> HasNoLicense c")
      case True
      let ?front = "(if HasNoLicense c then [dpiNamespace D inst] else []) @
          publicCertSecret D # copiedSecrets D (PullSecrets c) @ ?three"
      from True have "tc1 = tc2" by (auto simp: tc1 tc2 cc ii)
      moreover from True have "td1 = ?front @ [DaemonSetObject ds]"
        by (simp add: td1 ownedObjects_front[of d1 _ _ d1])
      moreover from True have "td2 = ?front @ [DaemonSetObject ds']"
        by (simp add: td2 cc ii rr ownedObjects_front[of d2 _ _ d1])
      ultimately show ?thesis using True c ds ds' id by auto
    next
      case False
      let ?front = "dpiNamespace D inst # copiedSecrets D (ESSecrets c) @
          copiedSecrets D (PullSecrets c) @ ?three"
      from False have "td1 = td2" by (simp add: td1 td2 cc)
      moreover from False have "tc1 = ?front @ [DaemonSetObject ds]"
        by (simp add: tc1 ownedObjects_front[of d1 _ _ d1])
      moreover from False have "tc2 = ?front @ [DaemonSetObject ds']"
        by (simp add: tc2 cc ii rr ownedObjects_front[of d2 _ _ d1])
      ultimately show ?thesis using False c ds ds' id by auto
    qed
  qed
qed

lemma handsOut_dpiImage [simp]: "dpiImage (handsOut m d) = dpiImage d"
  by (simp add: handsOut_def)

lemma handsOut_dpiClusterRole: "dpiClusterRole D (handsOut m d) = dpiClusterRole D d"
  by (cases "cfg d") (simp_all add: dpiClusterRole_def handsOut_def)

lemma handsOut_dpiVolumes: "dpiVolumes (handsOut m d) = dpiVolumes d"
proof (cases "cfg d")
  case None
  then show ?thesis by (simp add: dpiVolumes_def handsOut_def)
next
  case (Some c)
  then show ?thesis
    by (cases "TyphaNodeTLS c"; cases "TrustedBundle (the (TyphaNodeTLS c))")
       (simp_all add: dpiVolumes_def handsOut_def)
qed

lemma handsOut_dpiEnvVars: "dpiEnvVars D (handsOut m d) = dpiEnvVars D d"
proof (cases "cfg d")
  case None
  then show ?thesis by (simp add: dpiEnvVars_def handsOut_def)
next
  case (Some c)
  then show ?thesis
    by (cases "TyphaNodeTLS c"; cases "TrustedBundle (the (TyphaNodeTLS c))")
       (simp_all add: dpiEnvVars_def handsOut_def Let_def cong: if_cong)
qed

lemma handsOut_dpiVolumeMounts: "dpiVolumeMounts D (handsOut m d) = dpiVolumeMounts D d"
proof (cases "cfg d")
  case None
  then show ?thesis by (simp add: dpiVolumeMounts_def handsOut_def)
next
  case (Some c)
  then show ?thesis
    by (cases "TyphaNodeTLS c"; cases "TrustedBundle (the (TyphaNodeTLS c))")
       (simp_all add: dpiVolumeMounts_def handsOut_def SupportedOSType_def)
qed

lemma handsOut_dpiContainer: "dpiContainer D (handsOut m d) = dpiContainer D d"
proof (cases "cfg d")
  case None
  then show ?thesis by (simp add: dpiContainer_def handsOut_def)
next
  case (Some c)
  have "cfg (handsOut m d) \<noteq> None" using Some by (simp add: handsOut_def)
  then obtain c' where c': "cfg (handsOut m d) = Some c'" by auto
  with Some have f: "IntrusionDetection c' = IntrusionDetection c" "Openshift c' = Openshift c"
    "ESClusterConfig c' = ESClusterConfig c" "ClusterDomain c' = ClusterDomain c"
    by (auto simp: handsOut_def)
  show ?thesis
    by (simp add: dpiContainer_def Some c' f handsOut_dpiEnvVars handsOut_dpiVolumeMounts
        dpiReadinessProbes_def)
qed

lemma handsOut_dpiAnnotations:
  assumes "dpiAnnotations d = Some (Some written)"
  shows "dpiAnnotations (handsOut (Some written) d) = Some (Some written)"
  using assms
  by (auto simp: dpiAnnotations_def handsOut_def split: Option.bind_splits if_splits option.splits)

lemma handsOut_dpiDaemonset:
  assumes "dpiAnnotations d = Some (Some written)"
  shows "dpiDaemonset D (handsOut (Some written) d) = dpiDaemonset D d"
proof (cases "cfg d")
  case None
  then show ?thesis by (simp add: dpiDaemonset_def handsOut_def)
next
  case (Some c)
  have "cfg (handsOut (Some written) d) \<noteq> None" using Some by (simp add: handsOut_def)
  then obtain c' where c': "cfg (handsOut (Some written) d) = Some c'" by auto
  with Some have f: "PullSecrets c' = PullSecrets c" "ESSecrets c' = ESSecrets c"
    "ESClusterConfig c' = ESClusterConfig c"
    "TyphaNodeTLS c' \<bind> NodeSecret = TyphaNodeTLS c \<bind> NodeSecret"
    by (auto simp: handsOut_def split: Option.bind_splits)
  have "dpiDaemonset D (handsOut (Some written) d) =
        (TyphaNodeTLS c' \<bind> NodeSecret) \<bind> (\<lambda>ns.
          dpiContainer D d \<bind> (\<lambda>container. dpiVolumes d \<bind> (\<lambda>volumes.
            DecorateAnnotations D (undecoratedTemplate D c ns (Some written) container volumes)
              (ESClusterConfig c) (ESSecrets c) \<bind> (\<lambda>podTemplate. Some \<lparr>
       DaemonSet_TypeMeta = \<lparr>Kind = ''DaemonSet'', APIVersion = ''apps/v1''\<rparr>,
       DaemonSet_ObjectMeta =
         \<lparr>Name = DeepPacketInspectionName, Namespace = DeepPacketInspectionNamespace,
          Labels = None, Annotations = None\<rparr>,
       DaemonSet_Spec = \<lparr>Template = podTemplate\<rparr>\<rparr>))))"
    by (simp add: dpiDaemonset_def c' f(1-3) handsOut_dpiAnnotations[OF assms] handsOut_dpiContainer
        handsOut_dpiVolumes Let_def undecoratedTemplate_def split: Option.bind_split)
  moreover have "dpiDaemonset D d =
        (TyphaNodeTLS c \<bind> NodeSecret) \<bind> (\<lambda>ns.
          dpiContainer D d \<bind> (\<lambda>container. dpiVolumes d \<bind> (\<lambda>volumes.
            DecorateAnnotations D (undecoratedTemplate D c ns (Some written) container volumes)
              (ESClusterConfig c) (ESSecrets c) \<bind> (\<lambda>podTemplate. Some \<lparr>
       DaemonSet_TypeMeta = \<lparr>Kind = ''DaemonSet'', APIVersion = ''apps/v1''\<rparr>,
       DaemonSet_ObjectMeta =
         \<lparr>Name = DeepPacketInspectionName, Namespace = DeepPacketInspectionNamespace,
          Labels = None, Annotations = None\<rparr>,
       DaemonSet_Spec = \<lparr>Template = podTemplate\<rparr>\<rparr>))))"
    by (simp add: dpiDaemonset_def Some assms Let_def undecoratedTemplate_def
        split: Option.bind_split)
  ultimately show ?thesis by (simp add: f(4))
qed

lemma handsOut_Objects:
  assumes "dpiAnnotations d = Some (Some written)"
  shows "Objects D (handsOut (Some written) d) = Objects D d"
proof (cases "cfg d")
  case None
  then show ?thesis by (simp add: Objects_def handsOut_def)
next
  case (Some c)
  have "cfg (handsOut (Some written) d) \<noteq> None" using Some by (simp add: handsOut_def)
  then obtain c' where c': "cfg (handsOut (Some written) d) = Some c'" by auto
  with Some have f: "PullSecrets c' = PullSecrets c" "ESSecrets c' = ESSecrets c"
    "Installation c' = Installation c" "HasNoLicense c' = HasNoLicense c"
    "HasNoDPIResource c' = HasNoDPIResource c"
    by (auto simp: handsOut_def)
  show ?thesis
    by (simp add: Objects_def Some c' f handsOut_dpiClusterRole handsOut_dpiDaemonset[OF assms]
        dpiServiceAccount_def dpiClusterRoleBinding_def Let_def cong: if_cong)
qed

section \<open>The create and delete lists of the DPI renderer\<close>

text \<open>
  C1. For every configuration, the toCreate and toDelete lists that \<open>Objects\<close> returns are
  disjoint by identity (kind, namespace, name): no identity occurs in both. The helper
  \<open>ToRuntimeObjects\<close> is assumed to return Secrets only.
\<close>

theorem C1_create_delete_disjoint:
  assumes sec: "\<And>ss x. x \<in> set (ToRuntimeObjects D ss) \<Longrightarrow> kindOf x = ''Secret''"
    and obj: "Objects D d = Some (toCreate, toDelete)"
  shows "identity ` set toCreate \<inter> identity ` set toDelete = {}"
proof (rule Objects_SomeE[OF obj])
  fix c inst role ds
  assume tc: "toCreate = (if HasNoLicense c then []
           else dpiNamespace D inst #
             (if HasNoDPIResource c then []
              else copiedSecrets D (ESSecrets c) @ copiedSecrets D (PullSecrets c) @ ownedObjects d role ds))"
    and td: "toDelete = (if HasNoLicense c then [dpiNamespace D inst] else []) @
          (if HasNoDPIResource c \<or> HasNoLicense c
           then publicCertSecret D # copiedSecrets D (PullSecrets c) @ ownedObjects d role ds
           else [])"
  show ?thesis
  proof (cases "HasNoLicense c")
    case True
    then show ?thesis by (simp add: tc)
  next
    case nl: False
    show ?thesis
    proof (cases "HasNoDPIResource c")
      case True
      with nl kind_copiedSecrets[OF sec] show ?thesis
        by (auto simp: tc td identity_def dpiNamespace_def publicCertSecret_def ownedObjects_def)
    next
      case False
      with nl show ?thesis by (simp add: td)
    qed
  qed
qed

theorem C1_create_delete_disjoint_witness:
  "Objects sampleDeps (DPI (Some (sampleConfig False True False False))) \<noteq> None \<and>
   identity ` set (fst (the (Objects sampleDeps (DPI (Some (sampleConfig False True False False)))))) \<inter>
   identity ` set (snd (the (Objects sampleDeps (DPI (Some (sampleConfig False True False False)))))) = {}"
proof -
  have sec: "\<And>ss x. x \<in> set (ToRuntimeObjects sampleDeps ss) \<Longrightarrow> kindOf x = ''Secret''"
    by (auto simp: sampleDeps_def)
  have "Objects sampleDeps (DPI (Some (sampleConfig False True False False))) \<noteq> None"
    by (simp add: sample_defs dpi_defs)
  then obtain tc td where
    r: "Objects sampleDeps (DPI (Some (sampleConfig False True False False))) = Some (tc, td)"
    by auto
  from C1_create_delete_disjoint[OF sec r] r show ?thesis by simp
qed

text \<open>
  C2 as stated (a missing prerequisite empties toCreate and sends the namespace to toDelete)
  fails when only the DPI resource is missing: with the license present and no DPI resource,
  the namespace is the one element of toCreate and no namespace is in toDelete.
\<close>

theorem C2_namespace_kept_counterexample:
  "HasNoDPIResource (sampleConfig False True False False) \<and>
   Objects sampleDeps (DPI (Some (sampleConfig False True False False))) \<noteq> None \<and>
   fst (the (Objects sampleDeps (DPI (Some (sampleConfig False True False False))))) =
     [NamespaceObject \<lparr>
        Namespace_TypeMeta = \<lparr>Kind = ''Namespace'', APIVersion = ''v1''\<rparr>,
        Namespace_ObjectMeta = \<lparr>Name = ''tigera-dpi'', Namespace = [], Labels = None, Annotations = None\<rparr>\<rparr>] \<and>
   ''Namespace'' \<notin> kindOf ` set (snd (the (Objects sampleDeps (DPI (Some (sampleConfig False True False False))))))"
  by (simp add: sample_defs dpi_defs)

text \<open>
  C2, amended. Without a license, toCreate is empty and toDelete holds the namespace, the
  public certificate secret, the copies of the pull secrets, the service account, the cluster
  role, the cluster role binding and the daemonset. With a license but no DPI resource,
  toCreate is the namespace alone and toDelete holds the same objects but the namespace.
\<close>

theorem C2_gating_by_license_and_resource:
  assumes obj: "Objects D d = Some (toCreate, toDelete)"
    and c: "cfg d = Some c" and inst: "Installation c = Some inst"
  shows "\<exists>role ds. dpiClusterRole D d = Some role \<and> dpiDaemonset D d = Some ds \<and>
     (HasNoLicense c \<longrightarrow>
        toCreate = [] \<and>
        toDelete = dpiNamespace D inst # publicCertSecret D #
                   copiedSecrets D (PullSecrets c) @ ownedObjects d role ds) \<and>
     (\<not> HasNoLicense c \<and> HasNoDPIResource c \<longrightarrow>
        toCreate = [dpiNamespace D inst] \<and>
        toDelete = publicCertSecret D #
                   copiedSecrets D (PullSecrets c) @ ownedObjects d role ds)"
  by (rule Objects_SomeE[OF obj]) (use c inst in auto)

theorem C2_gating_by_license_and_resource_witness:
  "Objects sampleDeps (DPI (Some (sampleConfig True False False False))) \<noteq> None \<and>
   HasNoLicense (sampleConfig True False False False) \<and>
   fst (the (Objects sampleDeps (DPI (Some (sampleConfig True False False False))))) = [] \<and>
   map kindOf (snd (the (Objects sampleDeps (DPI (Some (sampleConfig True False False False)))))) =
     [''Namespace'', ''Secret'', ''Secret'', ''ServiceAccount'', ''ClusterRole'',
      ''ClusterRoleBinding'', ''DaemonSet'']"
proof -
  let ?c = "sampleConfig True False False False"
  let ?d = "DPI (Some ?c)"
  have c: "cfg ?d = Some ?c" by (simp add: DPI_def)
  have l: "HasNoLicense ?c" by (simp add: sampleConfig_def)
  have i: "Installation ?c = Some \<lparr>KubernetesProvider = [], Registry = ''testregistry.com/'',
      ImagePath = [], ImagePrefix = []\<rparr>" by (simp add: sampleConfig_def)
  obtain tc td where o: "Objects sampleDeps ?d = Some (tc, td)"
    using sample_Objects_Some[of True False False False] by auto
  from C2_gating_by_license_and_resource[OF o c i] l obtain role ds where "tc = []" and
    "td = dpiNamespace sampleDeps \<lparr>KubernetesProvider = [], Registry = ''testregistry.com/'',
      ImagePath = [], ImagePrefix = []\<rparr> # publicCertSecret sampleDeps #
                   copiedSecrets sampleDeps (PullSecrets ?c) @ ownedObjects ?d role ds"
    by blast
  then have "tc = []" and "map kindOf td = [''Namespace'', ''Secret'', ''Secret'', ''ServiceAccount'', ''ClusterRole'',
      ''ClusterRoleBinding'', ''DaemonSet'']"
    by (simp_all add: dpiNamespace_def publicCertSecret_def copiedSecrets_def ownedObjects_def
        sampleDeps_def sampleConfig_def)
  with o l show ?thesis by simp
qed

text \<open>
  C4 as stated (components built from the same configuration return the same lists) fails:
  the image stored by \<open>ResolveImages\<close> is part of the component and of the rendered
  daemonset, so resolving the images changes what \<open>Objects\<close> returns for the same
  configuration.
\<close>

theorem C4_image_changes_objects_counterexample:
  "ResolveImages sampleDeps (DPI (Some (sampleConfig False False False False))) None \<noteq> None \<and>
   cfg (fst (the (ResolveImages sampleDeps (DPI (Some (sampleConfig False False False False))) None)))
     = cfg (DPI (Some (sampleConfig False False False False))) \<and>
   Objects sampleDeps (fst (the (ResolveImages sampleDeps
       (DPI (Some (sampleConfig False False False False))) None)))
     \<noteq> Objects sampleDeps (DPI (Some (sampleConfig False False False False)))"
  by (simp add: ResolveImages_def sample_defs dpi_defs)

text \<open>
  C4, amended. \<open>Objects\<close> is a function of the configuration and of the image that
  \<open>ResolveImages\<close> stored: two components with the same configuration and the same image
  return the same result, and so do two components with the same configuration once their
  images are resolved against the same image set. The image reaches the daemonset only:
  two components with the same configuration, whatever their images, return lists that
  are equal but for the daemonset, which is the last element of its list and has the same
  identity in both. The one write of the renderer, the entry that \<open>dpiAnnotations\<close> puts
  into the map the trusted bundle hands out, changes nothing on the next call: when the
  bundle hands out the written map again, \<open>dpiAnnotations\<close> and \<open>Objects\<close> return what they
  returned before.
\<close>

theorem C4_objects_function_of_config_and_image:
  "(cfg d1 = cfg d2 \<and> dpiImage d1 = dpiImage d2 \<longrightarrow> Objects D d1 = Objects D d2) \<and>
   (cfg d1 = cfg d2 \<and> ResolveImages D d1 is = Some (d1', e1) \<and>
    ResolveImages D d2 is = Some (d2', e2) \<longrightarrow>
      Objects D d1' = Objects D d2' \<and> e1 = e2) \<and>
   (cfg d1 = cfg d2 \<and> Objects D d1 = Some (tc1, td1) \<and> Objects D d2 = Some (tc2, td2) \<longrightarrow>
      (\<exists>c ds1 ds2 front.
         cfg d1 = Some c \<and> dpiDaemonset D d1 = Some ds1 \<and> dpiDaemonset D d2 = Some ds2 \<and>
         identity (DaemonSetObject ds1) = identity (DaemonSetObject ds2) \<and>
         (if HasNoDPIResource c \<or> HasNoLicense c
          then tc1 = tc2 \<and>
               td1 = front @ [DaemonSetObject ds1] \<and> td2 = front @ [DaemonSetObject ds2]
          else td1 = td2 \<and>
               tc1 = front @ [DaemonSetObject ds1] \<and> tc2 = front @ [DaemonSetObject ds2]))) \<and>
   (dpiAnnotations d1 = Some (Some written) \<longrightarrow>
      dpiAnnotations (handsOut (Some written) d1) = Some (Some written) \<and>
      Objects D (handsOut (Some written) d1) = Objects D d1)"
proof (intro conjI impI)
  assume "cfg d1 = cfg d2 \<and> dpiImage d1 = dpiImage d2"
  then have "d1 = d2" by simp
  then show "Objects D d1 = Objects D d2" by simp
next
  assume a: "cfg d1 = cfg d2 \<and> ResolveImages D d1 is = Some (d1', e1) \<and>
    ResolveImages D d2 is = Some (d2', e2)"
  then have eq: "cfg d1 = cfg d2" and r1: "ResolveImages D d1 is = Some (d1', e1)"
    and r2: "ResolveImages D d2 is = Some (d2', e2)" by simp_all
  have "d1' = d2' \<and> e1 = e2"
  proof (rule ResolveImages_SomeE[OF r1])
    fix c inst
    assume c1: "cfg d1 = Some c" and i1: "Installation c = Some inst"
      and d1': "d1' = d1\<lparr>dpiImage := fst (GetReference D (ComponentDeepPacketInspection D)
             (Registry inst) (ImagePath inst) (ImagePrefix inst) is)\<rparr>"
      and e1: "e1 = snd (GetReference D (ComponentDeepPacketInspection D)
             (Registry inst) (ImagePath inst) (ImagePrefix inst) is)"
    show ?thesis
    proof (rule ResolveImages_SomeE[OF r2])
      fix c' inst'
      assume c2: "cfg d2 = Some c'" and i2: "Installation c' = Some inst'"
        and d2': "d2' = d2\<lparr>dpiImage := fst (GetReference D (ComponentDeepPacketInspection D)
             (Registry inst') (ImagePath inst') (ImagePrefix inst') is)\<rparr>"
        and e2: "e2 = snd (GetReference D (ComponentDeepPacketInspection D)
             (Registry inst') (ImagePath inst') (ImagePrefix inst') is)"
      from eq c1 c2 have "c' = c" by simp
      with i1 i2 have "inst' = inst" by simp
      with d1' d2' e1 e2 eq show ?thesis by simp
    qed
  qed
  then show "Objects D d1' = Objects D d2'" and "e1 = e2" by simp_all
next
  assume "cfg d1 = cfg d2 \<and> Objects D d1 = Some (tc1, td1) \<and> Objects D d2 = Some (tc2, td2)"
  then have eq: "cfg d1 = cfg d2" and o1: "Objects D d1 = Some (tc1, td1)"
    and o2: "Objects D d2 = Some (tc2, td2)" by simp_all
  show "\<exists>c ds1 ds2 front.
         cfg d1 = Some c \<and> dpiDaemonset D d1 = Some ds1 \<and> dpiDaemonset D d2 = Some ds2 \<and>
         identity (DaemonSetObject ds1) = identity (DaemonSetObject ds2) \<and>
         (if HasNoDPIResource c \<or> HasNoLicense c
          then tc1 = tc2 \<and>
               td1 = front @ [DaemonSetObject ds1] \<and> td2 = front @ [DaemonSetObject ds2]
          else td1 = td2 \<and>
               tc1 = front @ [DaemonSetObject ds1] \<and> tc2 = front @ [DaemonSetObject ds2])"
    by (rule Objects_same_cfg[OF eq o1 o2])
next
  assume w: "dpiAnnotations d1 = Some (Some written)"
  show "dpiAnnotations (handsOut (Some written) d1) = Some (Some written)"
    by (rule handsOut_dpiAnnotations[OF w])
  show "Objects D (handsOut (Some written) d1) = Objects D d1"
    by (rule handsOut_Objects[OF w])
qed

theorem C4_objects_function_of_config_and_image_witness:
  "cfg (DPI (Some (sampleConfig False False False False))) =
     cfg ((DPI (Some (sampleConfig False False False False)))\<lparr>dpiImage := ''stale''\<rparr>) \<and>
   ResolveImages sampleDeps (DPI (Some (sampleConfig False False False False))) None \<noteq> None \<and>
   ResolveImages sampleDeps
     ((DPI (Some (sampleConfig False False False False)))\<lparr>dpiImage := ''stale''\<rparr>) None \<noteq> None \<and>
   Objects sampleDeps (fst (the (ResolveImages sampleDeps
       (DPI (Some (sampleConfig False False False False))) None))) =
   Objects sampleDeps (fst (the (ResolveImages sampleDeps
       ((DPI (Some (sampleConfig False False False False)))\<lparr>dpiImage := ''stale''\<rparr>) None))) \<and>
   map kindOf (fst (the (Objects sampleDeps (DPI (Some (sampleConfig False False False False)))))) =
     [''Namespace'', ''Secret'', ''Secret'', ''ServiceAccount'', ''ClusterRole'',
      ''ClusterRoleBinding'', ''DaemonSet''] \<and>
   butlast (fst (the (Objects sampleDeps (DPI (Some (sampleConfig False False False False)))))) =
   butlast (fst (the (Objects sampleDeps
       ((DPI (Some (sampleConfig False False False False)))\<lparr>dpiImage := ''stale''\<rparr>)))) \<and>
   last (fst (the (Objects sampleDeps (DPI (Some (sampleConfig False False False False)))))) \<noteq>
   last (fst (the (Objects sampleDeps
       ((DPI (Some (sampleConfig False False False False)))\<lparr>dpiImage := ''stale''\<rparr>)))) \<and>
   snd (the (Objects sampleDeps (DPI (Some (sampleConfig False False False False))))) =
   snd (the (Objects sampleDeps
       ((DPI (Some (sampleConfig False False False False)))\<lparr>dpiImage := ''stale''\<rparr>))) \<and>
   dpiAnnotations (DPI (Some (sampleConfig False False False False))) \<noteq> None \<and>
   the (dpiAnnotations (DPI (Some (sampleConfig False False False False)))) \<noteq> None \<and>
   Objects sampleDeps (handsOut (the (dpiAnnotations (DPI (Some (sampleConfig False False False False)))))
       (DPI (Some (sampleConfig False False False False)))) =
   Objects sampleDeps (DPI (Some (sampleConfig False False False False)))"
proof -
  let ?c = "sampleConfig False False False False"
  let ?d1 = "DPI (Some ?c)"
  let ?d2 = "?d1\<lparr>dpiImage := ''stale''\<rparr>"
  note C4 = C4_objects_function_of_config_and_image
  have eq: "cfg ?d1 = cfg ?d2" by simp
  have n1: "ResolveImages sampleDeps ?d1 None \<noteq> None"
    and n2: "ResolveImages sampleDeps ?d2 None \<noteq> None"
    by (simp_all add: ResolveImages_def sample_defs DPI_def)
  then obtain d1' e1 d2' e2 where r1: "ResolveImages sampleDeps ?d1 None = Some (d1', e1)"
    and r2: "ResolveImages sampleDeps ?d2 None = Some (d2', e2)" by auto
  from C4[of ?d1 ?d2 sampleDeps None d1' e1 d2' e2] eq r1 r2
  have "Objects sampleDeps d1' = Objects sampleDeps d2'" by blast
  with r1 r2 have resolved: "Objects sampleDeps (fst (the (ResolveImages sampleDeps ?d1 None))) =
      Objects sampleDeps (fst (the (ResolveImages sampleDeps ?d2 None)))" by simp
  have "Objects sampleDeps ?d1 \<noteq> None" by (simp add: sample_defs dpi_defs)
  then obtain tc1 td1 where o1: "Objects sampleDeps ?d1 = Some (tc1, td1)" by auto
  have "Objects sampleDeps ?d2 \<noteq> None" by (simp add: sample_defs dpi_defs)
  then obtain tc2 td2 where o2: "Objects sampleDeps ?d2 = Some (tc2, td2)" by auto
  from C4[of ?d1 ?d2 sampleDeps _ _ _ _ _ tc1 td1 tc2 td2] eq o1 o2
  obtain c ds1 ds2 front where c: "cfg ?d1 = Some c"
    and shape: "if HasNoDPIResource c \<or> HasNoLicense c
          then tc1 = tc2 \<and>
               td1 = front @ [DaemonSetObject ds1] \<and> td2 = front @ [DaemonSetObject ds2]
          else td1 = td2 \<and>
               tc1 = front @ [DaemonSetObject ds1] \<and> tc2 = front @ [DaemonSetObject ds2]"
    by blast
  from c have "c = ?c" by (simp add: DPI_def)
  with shape have "td1 = td2" and "butlast tc1 = butlast tc2"
    by (simp_all add: sampleConfig_def)
  with o1 o2 have same: "butlast (fst (the (Objects sampleDeps ?d1))) =
      butlast (fst (the (Objects sampleDeps ?d2)))"
    "snd (the (Objects sampleDeps ?d1)) = snd (the (Objects sampleDeps ?d2))"
    by simp_all
  have kinds: "map kindOf (fst (the (Objects sampleDeps ?d1))) =
     [''Namespace'', ''Secret'', ''Secret'', ''ServiceAccount'', ''ClusterRole'',
      ''ClusterRoleBinding'', ''DaemonSet'']"
    by (simp add: sample_defs dpi_defs)
  have differ: "last (fst (the (Objects sampleDeps ?d1))) \<noteq>
      last (fst (the (Objects sampleDeps ?d2)))"
    by (simp add: sample_defs dpi_defs)
  have a: "dpiAnnotations ?d1 \<noteq> None" and a': "the (dpiAnnotations ?d1) \<noteq> None"
    by (simp_all add: sample_defs dpi_defs)
  then obtain written where w: "dpiAnnotations ?d1 = Some (Some written)" by auto
  from C4[of ?d1 _ sampleDeps _ _ _ _ _ _ _ _ _ written] w
  have "Objects sampleDeps (handsOut (Some written) ?d1) = Objects sampleDeps ?d1" by blast
  with w have again: "Objects sampleDeps (handsOut (the (dpiAnnotations ?d1)) ?d1) =
      Objects sampleDeps ?d1" by simp
  from eq n1 n2 resolved kinds same differ a a' again show ?thesis by blast
qed

text \<open>
  C6. When both prerequisites hold, the daemonset in toCreate mounts the volumes of the
  trusted bundle and of the node secret, and its pod template carries the node secret's
  fingerprint under the node secret's hash-annotation key and each fingerprint of the trusted
  bundle under its key. \<open>DecorateAnnotations\<close> is assumed to write under the keys of \<open>E\<close>
  only, and the keys are taken to be distinct.
\<close>

theorem C6_certificate_annotations:
  assumes dec: "decoratesOnly D E"
    and c: "cfg d = Some c" and lic: "\<not> HasNoLicense c" and res: "\<not> HasNoDPIResource c"
    and obj: "Objects D d = Some (toCreate, toDelete)"
  shows "\<exists>ds tls tb ns m.
     dpiDaemonset D d = Some ds \<and> DaemonSetObject ds \<in> set toCreate \<and>
     TyphaNodeTLS c = Some tls \<and> TrustedBundle tls = Some tb \<and> NodeSecret tls = Some ns \<and>
     HashAnnotations tb = Some m \<and>
     TrustedBundle_Volume tb \<in> set (Volumes (PodTemplateSpec_Spec (podTemplateOf ds))) \<and>
     KeyPair_Volume ns \<in> set (Volumes (PodTemplateSpec_Spec (podTemplateOf ds))) \<and>
     dpiAnnotations d = Some (Some (m(HashAnnotationKey ns \<mapsto> HashAnnotationValue ns))) \<and>
     (HashAnnotationKey ns \<notin> E \<longrightarrow>
        annotation (PodTemplateSpec_ObjectMeta (podTemplateOf ds)) (HashAnnotationKey ns)
          = Some (HashAnnotationValue ns)) \<and>
     (\<forall>k v. m k = Some v \<and> k \<noteq> HashAnnotationKey ns \<and> k \<notin> E \<longrightarrow>
        annotation (PodTemplateSpec_ObjectMeta (podTemplateOf ds)) k = Some v)"
proof (rule Objects_SomeE[OF obj])
  fix c' inst role ds
  assume c': "cfg d = Some c'" and ds: "dpiDaemonset D d = Some ds"
    and tc: "toCreate = (if HasNoLicense c' then []
           else dpiNamespace D inst #
             (if HasNoDPIResource c' then []
              else copiedSecrets D (ESSecrets c') @ copiedSecrets D (PullSecrets c') @ ownedObjects d role ds))"
  from c c' have [simp]: "c' = c" by simp
  from tc lic res have mem: "DaemonSetObject ds \<in> set toCreate"
    by (simp add: ownedObjects_def)
  show ?thesis
  proof (rule dpiDaemonset_SomeE[OF ds])
    fix c'' tls ns ann ctr vols
    assume c'': "cfg d = Some c''" and tls: "TyphaNodeTLS c'' = Some tls"
      and ns: "NodeSecret tls = Some ns" and ann: "dpiAnnotations d = Some ann"
      and vols: "dpiVolumes d = Some vols"
      and pt: "DecorateAnnotations D (undecoratedTemplate D c'' ns ann ctr vols)
                 (ESClusterConfig c'') (ESSecrets c'') = Some (podTemplateOf ds)"
    from c c'' have cc: "c'' = c" by simp
    show ?thesis
    proof (rule dpiAnnotations_prereq[OF c lic res ann])
      fix tls' tb ns' m
      assume tls': "TyphaNodeTLS c = Some tls'" and tb: "TrustedBundle tls' = Some tb"
        and ns': "NodeSecret tls' = Some ns'" and m: "HashAnnotations tb = Some m"
        and a: "ann = Some (m(HashAnnotationKey ns' \<mapsto> HashAnnotationValue ns'))"
      from tls tls' cc have t: "tls' = tls" by simp
      with ns ns' have n: "ns' = ns" by simp
      have spec: "PodTemplateSpec_Spec (podTemplateOf ds) = PodTemplateSpec_Spec (undecoratedTemplate D c'' ns ann ctr vols)"
        by (rule decoratesOnly_spec[OF dec pt])
      have volumes: "Volumes (PodTemplateSpec_Spec (podTemplateOf ds)) = vols"
        by (simp add: spec undecoratedTemplate_def)
      have vs: "TrustedBundle_Volume tb \<in> set vols \<and> KeyPair_Volume ns \<in> set vols"
        by (rule dpiVolumes_SomeE[OF vols c tls[unfolded cc]]) (use tb ns t in auto)
      have look: "\<And>k. k \<notin> E \<Longrightarrow> annotation (PodTemplateSpec_ObjectMeta (podTemplateOf ds)) k
                    = (m(HashAnnotationKey ns \<mapsto> HashAnnotationValue ns)) k"
        using decoratesOnly_annotation[OF dec pt]
        by (simp add: undecoratedTemplate_def annotation_def a n)
      from look have k1: "HashAnnotationKey ns \<notin> E \<longrightarrow>
        annotation (PodTemplateSpec_ObjectMeta (podTemplateOf ds)) (HashAnnotationKey ns)
          = Some (HashAnnotationValue ns)" by simp
      from look have k2: "\<forall>k v. m k = Some v \<and> k \<noteq> HashAnnotationKey ns \<and> k \<notin> E \<longrightarrow>
        annotation (PodTemplateSpec_ObjectMeta (podTemplateOf ds)) k = Some v" by simp
      from ds mem tls[unfolded cc] tb[unfolded t] ns m vs volumes ann a n k1 k2
      show ?thesis by auto
    qed
  qed
qed

theorem C6_certificate_annotations_witness:
  "decoratesOnly sampleDeps {''hash.operator.tigera.io/elasticsearch-configmap''} \<and>
   \<not> HasNoLicense (sampleConfig False False False False) \<and>
   \<not> HasNoDPIResource (sampleConfig False False False False) \<and>
   Objects sampleDeps (DPI (Some (sampleConfig False False False False))) \<noteq> None \<and>
   annotation (PodTemplateSpec_ObjectMeta (podTemplateOf
       (the (dpiDaemonset sampleDeps (DPI (Some (sampleConfig False False False False))))))) 
     ''hash.operator.tigera.io/node-certs'' = Some ''5e1f'' \<and>
   annotation (PodTemplateSpec_ObjectMeta (podTemplateOf
       (the (dpiDaemonset sampleDeps (DPI (Some (sampleConfig False False False False)))))))
     ''hash.operator.tigera.io/tigera-ca-private'' = Some ''ab12''"
proof -
  let ?c = "sampleConfig False False False False"
  let ?d = "DPI (Some ?c)"
  have c: "cfg ?d = Some ?c" by (simp add: DPI_def)
  have l: "\<not> HasNoLicense ?c" and r: "\<not> HasNoDPIResource ?c" by (simp_all add: sampleConfig_def)
  obtain tc td where o: "Objects sampleDeps ?d = Some (tc, td)"
    using sample_Objects_Some[of False False False False] by auto
  from C6_certificate_annotations[OF sample_decoratesOnly c l r o] obtain ds tls tb ns m where
    ds: "dpiDaemonset sampleDeps ?d = Some ds" and tls: "TyphaNodeTLS ?c = Some tls"
    and tb: "TrustedBundle tls = Some tb" and ns: "NodeSecret tls = Some ns"
    and m: "HashAnnotations tb = Some m"
    and k1: "HashAnnotationKey ns \<notin> {''hash.operator.tigera.io/elasticsearch-configmap''} \<longrightarrow>
        annotation (PodTemplateSpec_ObjectMeta (podTemplateOf ds)) (HashAnnotationKey ns)
          = Some (HashAnnotationValue ns)"
    and k2: "\<forall>k v. m k = Some v \<and> k \<noteq> HashAnnotationKey ns \<and>
          k \<notin> {''hash.operator.tigera.io/elasticsearch-configmap''} \<longrightarrow>
        annotation (PodTemplateSpec_ObjectMeta (podTemplateOf ds)) k = Some v"
    by blast
  from tls have tls': "tls = \<lparr>TrustedBundle = Some sampleTrustedBundle,
       NodeSecret = Some (sampleKeyPair False), TyphaCommonName = ''typha-server'', TyphaURISAN = []\<rparr>"
    by (simp add: sampleConfig_def)
  from tb ns tls' have tb': "tb = sampleTrustedBundle" and ns': "ns = sampleKeyPair False" by simp_all
  from m tb' have m': "m = [''hash.operator.tigera.io/tigera-ca-private'' \<mapsto> ''ab12'']"
    by (simp add: sampleTrustedBundle_def)
  from k1 ns' have a1: "annotation (PodTemplateSpec_ObjectMeta (podTemplateOf ds))
      ''hash.operator.tigera.io/node-certs'' = Some ''5e1f''"
    by (simp add: sampleKeyPair_def)
  from k2[rule_format, of "''hash.operator.tigera.io/tigera-ca-private''" "''ab12''"] ns' m'
  have a2: "annotation (PodTemplateSpec_ObjectMeta (podTemplateOf ds))
      ''hash.operator.tigera.io/tigera-ca-private'' = Some ''ab12''"
    by (simp add: sampleKeyPair_def)
  from sample_decoratesOnly l r o ds a1 a2 show ?thesis by simp
qed




text \<open>
  C8. With a configuration and its installation at hand, \<open>dpiClusterRole\<close> returns a role
  whose rules are the three of the DPI resources, followed by the pod-security-policy
  "use" rule exactly when the Kubernetes provider is not OpenShift. \<open>dpiContainer\<close> returns
  exactly on the configurations that have the inputs it dereferences, and its container
  is privileged exactly when the \<open>Openshift\<close> flag is set: the security context is
  \<open>Privileged = true\<close> with the flag and \<open>Privileged = false\<close> without. The two container
  decorators are assumed to leave the security context as it is.
\<close>

theorem C8_provider_specific_fields:
  assumes keep: "keepsSecurityContext D"
    and c: "cfg d = Some c" and inst: "Installation c = Some inst"
  shows "(\<exists>role. dpiClusterRole D d = Some role \<and>
            Rules role = [
              \<lparr>APIGroups = [''crd.projectcalico.org''],
               Resources = [''deeppacketinspections''],
               Verbs = [''get'', ''list'', ''watch''],
               ResourceNames = []\<rparr>,
              \<lparr>APIGroups = [''crd.projectcalico.org''],
               Resources = [''deeppacketinspections/status''],
               Verbs = [''update''],
               ResourceNames = []\<rparr>,
              \<lparr>APIGroups = [[]],
               Resources = [''endpoints'', ''services''],
               Verbs = [''watch'', ''list'', ''get''],
               ResourceNames = []\<rparr>] @
              (if KubernetesProvider inst \<noteq> ProviderOpenShift D then [pspUseRule] else []) \<and>
            (pspUseRule \<in> set (Rules role)) = (KubernetesProvider inst \<noteq> ProviderOpenShift D)) \<and>
         (dpiContainer D d \<noteq> None) = containerInputs c \<and>
         (containerInputs c \<longrightarrow>
            (\<exists>container. dpiContainer D d = Some container \<and>
               Container_SecurityContext container = Some \<lparr>Privileged = Some (Openshift c)\<rparr> \<and>
               (Container_SecurityContext container = Some \<lparr>Privileged = Some True\<rparr>) = Openshift c))"
proof (intro conjI impI)
  let ?role = "the (dpiClusterRole D d)"
  have r: "dpiClusterRole D d = Some ?role"
    by (simp add: dpiClusterRole_returns[OF c inst])
  have rules: "Rules ?role = [
              \<lparr>APIGroups = [''crd.projectcalico.org''],
               Resources = [''deeppacketinspections''],
               Verbs = [''get'', ''list'', ''watch''],
               ResourceNames = []\<rparr>,
              \<lparr>APIGroups = [''crd.projectcalico.org''],
               Resources = [''deeppacketinspections/status''],
               Verbs = [''update''],
               ResourceNames = []\<rparr>,
              \<lparr>APIGroups = [[]],
               Resources = [''endpoints'', ''services''],
               Verbs = [''watch'', ''list'', ''get''],
               ResourceNames = []\<rparr>] @
              (if KubernetesProvider inst \<noteq> ProviderOpenShift D then [pspUseRule] else [])"
    by (simp add: dpiClusterRole_returns[OF c inst])
  have "(pspUseRule \<in> set (Rules ?role)) = (KubernetesProvider inst \<noteq> ProviderOpenShift D)"
    by (rule dpiClusterRole_Rules[OF c inst r])
  with r rules show "\<exists>role. dpiClusterRole D d = Some role \<and>
            Rules role = [
              \<lparr>APIGroups = [''crd.projectcalico.org''],
               Resources = [''deeppacketinspections''],
               Verbs = [''get'', ''list'', ''watch''],
               ResourceNames = []\<rparr>,
              \<lparr>APIGroups = [''crd.projectcalico.org''],
               Resources = [''deeppacketinspections/status''],
               Verbs = [''update''],
               ResourceNames = []\<rparr>,
              \<lparr>APIGroups = [[]],
               Resources = [''endpoints'', ''services''],
               Verbs = [''watch'', ''list'', ''get''],
               ResourceNames = []\<rparr>] @
              (if KubernetesProvider inst \<noteq> ProviderOpenShift D then [pspUseRule] else []) \<and>
            (pspUseRule \<in> set (Rules role)) = (KubernetesProvider inst \<noteq> ProviderOpenShift D)"
    by blast
next
  show "(dpiContainer D d \<noteq> None) = containerInputs c"
    by (rule dpiContainer_returns[OF c])
next
  assume "containerInputs c"
  with dpiContainer_returns[OF c, of D] obtain container where
    k: "dpiContainer D d = Some container" by auto
  from dpiContainer_SecurityContext[OF keep c k] k
  show "\<exists>container. dpiContainer D d = Some container \<and>
               Container_SecurityContext container = Some \<lparr>Privileged = Some (Openshift c)\<rparr> \<and>
               (Container_SecurityContext container = Some \<lparr>Privileged = Some True\<rparr>) = Openshift c"
    by auto
qed

theorem C8_provider_specific_fields_witness:
  "keepsSecurityContext sampleDeps \<and>
   containerInputs (sampleConfig False False False True) \<and>
   containerInputs (sampleConfig False False False False) \<and>
   Openshift (sampleConfig False False False True) \<and>
   Container_SecurityContext
     (the (dpiContainer sampleDeps (DPI (Some (sampleConfig False False False True)))))
     = Some \<lparr>Privileged = Some True\<rparr> \<and>
   pspUseRule \<notin> set (Rules (the (dpiClusterRole sampleDeps
     (DPI (Some (sampleConfig False False False True)))))) \<and>
   \<not> Openshift (sampleConfig False False False False) \<and>
   Container_SecurityContext
     (the (dpiContainer sampleDeps (DPI (Some (sampleConfig False False False False)))))
     = Some \<lparr>Privileged = Some False\<rparr> \<and>
   pspUseRule \<in> set (Rules (the (dpiClusterRole sampleDeps
     (DPI (Some (sampleConfig False False False False))))))"
proof -
  let ?c = "sampleConfig False False False True"
  let ?d = "DPI (Some ?c)"
  let ?inst = "\<lparr>KubernetesProvider = ''OpenShift'', Registry = ''testregistry.com/'',
      ImagePath = [], ImagePrefix = []\<rparr>"
  let ?c' = "sampleConfig False False False False"
  let ?d' = "DPI (Some ?c')"
  let ?inst' = "\<lparr>KubernetesProvider = [], Registry = ''testregistry.com/'',
      ImagePath = [], ImagePrefix = []\<rparr>"
  have c: "cfg ?d = Some ?c" and c': "cfg ?d' = Some ?c'" by (simp_all add: DPI_def)
  have i: "Installation ?c = Some ?inst" and i': "Installation ?c' = Some ?inst'"
    by (simp_all add: sampleConfig_def)
  have os: "Openshift ?c" and os': "\<not> Openshift ?c'" by (simp_all add: sampleConfig_def)
  have p: "ProviderOpenShift sampleDeps = ''OpenShift''" by (simp add: sampleDeps_def)
  note C8 = C8_provider_specific_fields
  from C8[OF sample_keepsSecurityContext c i] sample_containerInputs[of False False False True]
  obtain role container where "dpiClusterRole sampleDeps ?d = Some role"
    and "(pspUseRule \<in> set (Rules role)) = (KubernetesProvider ?inst \<noteq> ProviderOpenShift sampleDeps)"
    and "dpiContainer sampleDeps ?d = Some container"
    and "Container_SecurityContext container = Some \<lparr>Privileged = Some (Openshift ?c)\<rparr>"
    by blast
  with os p have one: "Container_SecurityContext (the (dpiContainer sampleDeps ?d))
       = Some \<lparr>Privileged = Some True\<rparr>"
    "pspUseRule \<notin> set (Rules (the (dpiClusterRole sampleDeps ?d)))"
    by simp_all
  from C8[OF sample_keepsSecurityContext c' i'] sample_containerInputs[of False False False False]
  obtain role' container' where "dpiClusterRole sampleDeps ?d' = Some role'"
    and "(pspUseRule \<in> set (Rules role')) = (KubernetesProvider ?inst' \<noteq> ProviderOpenShift sampleDeps)"
    and "dpiContainer sampleDeps ?d' = Some container'"
    and "Container_SecurityContext container' = Some \<lparr>Privileged = Some (Openshift ?c')\<rparr>"
    by blast
  with os' p have two: "Container_SecurityContext (the (dpiContainer sampleDeps ?d'))
       = Some \<lparr>Privileged = Some False\<rparr>"
    "pspUseRule \<in> set (Rules (the (dpiClusterRole sampleDeps ?d')))"
    by simp_all
  from one two os os' sample_keepsSecurityContext
    sample_containerInputs[of False False False True]
    sample_containerInputs[of False False False False]
  show ?thesis by simp
qed

text \<open>
  C9. A non-empty toCreate starts with the namespace; when both prerequisites hold it is the
  namespace, the copied secrets, the service account, the cluster role, the cluster role
  binding and the daemonset, in this order; and wherever a daemonset occurs in toCreate it is
  the last element, after every namespace, secret and service account.
\<close>

theorem C9_dependencies_first:
  assumes sec: "\<And>ss x. x \<in> set (ToRuntimeObjects D ss) \<Longrightarrow> kindOf x = ''Secret''"
    and obj: "Objects D d = Some (toCreate, toDelete)"
    and c: "cfg d = Some c" and inst: "Installation c = Some inst"
  shows "(toCreate \<noteq> [] \<longrightarrow> hd toCreate = dpiNamespace D inst) \<and>
         (\<not> HasNoLicense c \<and> \<not> HasNoDPIResource c \<longrightarrow>
            (\<exists>secrets role ds.
               dpiClusterRole D d = Some role \<and> dpiDaemonset D d = Some ds \<and>
               (\<forall>x \<in> set secrets. kindOf x = ''Secret'') \<and>
               toCreate = dpiNamespace D inst # secrets @
                 [ServiceAccountObject (dpiServiceAccount d), ClusterRoleObject role,
                  ClusterRoleBindingObject (dpiClusterRoleBinding d), DaemonSetObject ds] \<and>
               last toCreate = DaemonSetObject ds)) \<and>
         (\<forall>j < length toCreate. kindOf (toCreate ! j) = ''DaemonSet'' \<longrightarrow>
            Suc j = length toCreate \<and>
            (\<forall>i < length toCreate.
               kindOf (toCreate ! i) \<in> {''Namespace'', ''Secret'', ''ServiceAccount''} \<longrightarrow> i < j))"
proof (rule Objects_SomeE[OF obj])
  fix c' inst' role ds
  assume c': "cfg d = Some c'" and inst': "Installation c' = Some inst'"
    and role: "dpiClusterRole D d = Some role" and ds: "dpiDaemonset D d = Some ds"
    and tc: "toCreate = (if HasNoLicense c' then []
           else dpiNamespace D inst' #
             (if HasNoDPIResource c' then []
              else copiedSecrets D (ESSecrets c') @ copiedSecrets D (PullSecrets c') @ ownedObjects d role ds))"
  from c c' have cc: "c' = c" by simp
  with inst inst' have ii: "inst' = inst" by simp
  let ?secrets = "copiedSecrets D (ESSecrets c) @ copiedSecrets D (PullSecrets c)"
  have ks: "\<forall>x \<in> set ?secrets. kindOf x = ''Secret''"
    using kind_copiedSecrets[OF sec] by auto
  have first: "toCreate \<noteq> [] \<longrightarrow> hd toCreate = dpiNamespace D inst"
    by (simp add: tc cc ii)
  have shape: "\<not> HasNoLicense c \<and> \<not> HasNoDPIResource c \<longrightarrow>
            (\<exists>secrets role ds.
               dpiClusterRole D d = Some role \<and> dpiDaemonset D d = Some ds \<and>
               (\<forall>x \<in> set secrets. kindOf x = ''Secret'') \<and>
               toCreate = dpiNamespace D inst # secrets @
                 [ServiceAccountObject (dpiServiceAccount d), ClusterRoleObject role,
                  ClusterRoleBindingObject (dpiClusterRoleBinding d), DaemonSetObject ds] \<and>
               last toCreate = DaemonSetObject ds)"
  proof
    assume p: "\<not> HasNoLicense c \<and> \<not> HasNoDPIResource c"
    then have "toCreate = dpiNamespace D inst # ?secrets @
                 [ServiceAccountObject (dpiServiceAccount d), ClusterRoleObject role,
                  ClusterRoleBindingObject (dpiClusterRoleBinding d), DaemonSetObject ds]"
      by (simp add: tc cc ii ownedObjects_def)
    moreover from this have "last toCreate = DaemonSetObject ds" by simp
    ultimately show "\<exists>secrets role ds.
               dpiClusterRole D d = Some role \<and> dpiDaemonset D d = Some ds \<and>
               (\<forall>x \<in> set secrets. kindOf x = ''Secret'') \<and>
               toCreate = dpiNamespace D inst # secrets @
                 [ServiceAccountObject (dpiServiceAccount d), ClusterRoleObject role,
                  ClusterRoleBindingObject (dpiClusterRoleBinding d), DaemonSetObject ds] \<and>
               last toCreate = DaemonSetObject ds"
      using role ds ks by blast
  qed
  have pos: "\<forall>j < length toCreate. kindOf (toCreate ! j) = ''DaemonSet'' \<longrightarrow>
            Suc j = length toCreate \<and>
            (\<forall>i < length toCreate.
               kindOf (toCreate ! i) \<in> {''Namespace'', ''Secret'', ''ServiceAccount''} \<longrightarrow> i < j)"
  proof (intro allI impI)
    fix j
    assume j: "j < length toCreate" and k: "kindOf (toCreate ! j) = ''DaemonSet''"
    have full: "\<not> HasNoLicense c \<and> \<not> HasNoDPIResource c"
    proof (rule ccontr)
      assume "\<not> (\<not> HasNoLicense c \<and> \<not> HasNoDPIResource c)"
      then have "toCreate = [] \<or> toCreate = [dpiNamespace D inst]"
        by (auto simp: tc cc ii)
      with j k show False by (auto simp: dpiNamespace_def)
    qed
    define front where "front = dpiNamespace D inst # ?secrets @
                 [ServiceAccountObject (dpiServiceAccount d), ClusterRoleObject role,
                  ClusterRoleBindingObject (dpiClusterRoleBinding d)]"
    from full have t: "toCreate = front @ [DaemonSetObject ds]"
      by (simp add: tc cc ii ownedObjects_def front_def)
    have nd: "\<forall>x \<in> set front. kindOf x \<noteq> ''DaemonSet''"
      using ks by (auto simp: front_def dpiNamespace_def)
    from DaemonSet_position[OF nd j[unfolded t] k[unfolded t]]
    have last: "Suc j = length toCreate" by (simp add: t)
    have "\<forall>i < length toCreate.
               kindOf (toCreate ! i) \<in> {''Namespace'', ''Secret'', ''ServiceAccount''} \<longrightarrow> i < j"
    proof (intro allI impI)
      fix i
      assume i: "i < length toCreate"
        and ki: "kindOf (toCreate ! i) \<in> {''Namespace'', ''Secret'', ''ServiceAccount''}"
      have "i \<noteq> j" using ki k by auto
      with i last show "i < j" by simp
    qed
    with last show "Suc j = length toCreate \<and>
            (\<forall>i < length toCreate.
               kindOf (toCreate ! i) \<in> {''Namespace'', ''Secret'', ''ServiceAccount''} \<longrightarrow> i < j)"
      by simp
  qed
  from first shape pos show ?thesis by simp
qed

theorem C9_dependencies_first_witness:
  "Objects sampleDeps (DPI (Some (sampleConfig False False False False))) \<noteq> None \<and>
   map kindOf (fst (the (Objects sampleDeps (DPI (Some (sampleConfig False False False False)))))) =
     [''Namespace'', ''Secret'', ''Secret'', ''ServiceAccount'', ''ClusterRole'',
      ''ClusterRoleBinding'', ''DaemonSet''] \<and>
   hd (fst (the (Objects sampleDeps (DPI (Some (sampleConfig False False False False))))))
     = dpiNamespace sampleDeps \<lparr>KubernetesProvider = [], Registry = ''testregistry.com/'',
         ImagePath = [], ImagePrefix = []\<rparr>"
proof -
  let ?c = "sampleConfig False False False False"
  let ?d = "DPI (Some ?c)"
  let ?inst = "\<lparr>KubernetesProvider = [], Registry = ''testregistry.com/'',
      ImagePath = [], ImagePrefix = []\<rparr>"
  have c: "cfg ?d = Some ?c" by (simp add: DPI_def)
  have i: "Installation ?c = Some ?inst" by (simp add: sampleConfig_def)
  obtain tc td where o: "Objects sampleDeps ?d = Some (tc, td)"
    using sample_Objects_Some[of False False False False] by auto
  have "map kindOf (fst (the (Objects sampleDeps ?d))) =
      [''Namespace'', ''Secret'', ''Secret'', ''ServiceAccount'', ''ClusterRole'',
       ''ClusterRoleBinding'', ''DaemonSet'']"
    by (simp add: sample_defs dpi_defs)
  with o have k: "map kindOf tc = [''Namespace'', ''Secret'', ''Secret'', ''ServiceAccount'',
      ''ClusterRole'', ''ClusterRoleBinding'', ''DaemonSet'']"
    by simp
  then have "tc \<noteq> []" by auto
  with C9_dependencies_first[OF sample_secrets o c i] have "hd tc = dpiNamespace sampleDeps ?inst" by simp
  with o k show ?thesis by simp
qed

text \<open>
  C10. When the DPI resource or the license is missing, \<open>dpiAnnotations\<close> returns nil and
  the pod template of the daemonset has no annotation besides those \<open>DecorateAnnotations\<close>
  writes (the keys of \<open>E\<close>); \<open>dpiAnnotations\<close> returns a map only when both prerequisites
  hold.
\<close>

theorem C10_no_annotations_when_gated:
  assumes dec: "decoratesOnly D E" and c: "cfg d = Some c"
  shows "(HasNoDPIResource c \<or> HasNoLicense c \<longrightarrow>
            dpiAnnotations d = Some None \<and>
            (\<forall>ds. dpiDaemonset D d = Some ds \<longrightarrow>
               (\<forall>k. k \<notin> E \<longrightarrow> annotation (PodTemplateSpec_ObjectMeta (podTemplateOf ds)) k = None))) \<and>
         (\<forall>m. dpiAnnotations d = Some (Some m) \<longrightarrow> \<not> HasNoDPIResource c \<and> \<not> HasNoLicense c)"
proof (intro conjI impI allI)
  assume g: "HasNoDPIResource c \<or> HasNoLicense c"
  show "dpiAnnotations d = Some None" by (rule dpiAnnotations_gated[OF c g])
next
  fix ds k
  assume g: "HasNoDPIResource c \<or> HasNoLicense c" and ds: "dpiDaemonset D d = Some ds"
    and k: "k \<notin> E"
  show "annotation (PodTemplateSpec_ObjectMeta (podTemplateOf ds)) k = None"
  proof (rule dpiDaemonset_SomeE[OF ds])
    fix c' tls ns ann ctr vols
    assume ann: "dpiAnnotations d = Some ann"
      and pt: "DecorateAnnotations D (undecoratedTemplate D c' ns ann ctr vols)
               (ESClusterConfig c') (ESSecrets c') = Some (podTemplateOf ds)"
    from ann dpiAnnotations_gated[OF c g] have "ann = None" by simp
    with decoratesOnly_annotation[OF dec pt k] show ?thesis
      by (simp add: undecoratedTemplate_def annotation_def)
  qed
next
  fix m
  assume m: "dpiAnnotations d = Some (Some m)"
  show "\<not> HasNoDPIResource c" and "\<not> HasNoLicense c"
    using m dpiAnnotations_gated[OF c] by auto
qed

theorem C10_no_annotations_when_gated_witness:
  "decoratesOnly sampleDeps {''hash.operator.tigera.io/elasticsearch-configmap''} \<and>
   HasNoDPIResource (sampleConfig False True False False) \<and>
   dpiAnnotations (DPI (Some (sampleConfig False True False False))) = Some None \<and>
   dpiDaemonset sampleDeps (DPI (Some (sampleConfig False True False False))) \<noteq> None \<and>
   annotation (PodTemplateSpec_ObjectMeta (podTemplateOf
       (the (dpiDaemonset sampleDeps (DPI (Some (sampleConfig False True False False)))))))
     ''hash.operator.tigera.io/node-certs'' = None \<and>
   annotation (PodTemplateSpec_ObjectMeta (podTemplateOf
       (the (dpiDaemonset sampleDeps (DPI (Some (sampleConfig False True False False)))))))
     ''hash.operator.tigera.io/tigera-ca-private'' = None"
proof -
  let ?c = "sampleConfig False True False False"
  let ?d = "DPI (Some ?c)"
  have c: "cfg ?d = Some ?c" by (simp add: DPI_def)
  have g: "HasNoDPIResource ?c" by (simp add: sampleConfig_def)
  obtain ds where ds: "dpiDaemonset sampleDeps ?d = Some ds"
    using sample_dpiDaemonset_Some[of False True False False] by auto
  from C10_no_annotations_when_gated[OF sample_decoratesOnly c] g ds
  have a: "dpiAnnotations ?d = Some None"
    and n: "\<And>k. k \<notin> {''hash.operator.tigera.io/elasticsearch-configmap''} \<Longrightarrow>
       annotation (PodTemplateSpec_ObjectMeta (podTemplateOf ds)) k = None"
    by blast+
  have "annotation (PodTemplateSpec_ObjectMeta (podTemplateOf ds))
          ''hash.operator.tigera.io/node-certs'' = None"
    and "annotation (PodTemplateSpec_ObjectMeta (podTemplateOf ds))
          ''hash.operator.tigera.io/tigera-ca-private'' = None"
    by (rule n, simp)+
  with sample_decoratesOnly g a ds show ?thesis by simp
qed

section \<open>The controllers and the two management resources\<close>

text \<open>
  C3 as stated (with both resources present, \<open>Reconcile\<close> returns an error, sets the status
  to degraded and renders nothing) fails where the pass does not get to the check. Under
  the Calico variant the API server controller does not read the two resources: it renders,
  applies and returns no error, and never sets the status to degraded. The compliance
  controller returns no error when the license API is not ready.
\<close>

theorem C3_pass_without_check_counterexample:
  "bothPresent (sampleCluster ''Calico'') \<and>
   (case APIServer_Reconcile sampleNames sampleAPIServer (sampleCluster ''Calico'') of
      Returned out \<Rightarrow> returned out = None
    | Panicked evs \<Rightarrow> False) \<and>
   \<not> list_ex setsDegraded
       (trace (APIServer_Reconcile sampleNames sampleAPIServer (sampleCluster ''Calico''))) \<and>
   list_ex rendersOrApplies
       (trace (APIServer_Reconcile sampleNames sampleAPIServer (sampleCluster ''Calico''))) \<and>
   bothPresent (sampleCluster ''TigeraSecureEnterprise'') \<and>
   returned (Compliance_Reconcile sampleNames (sampleCompliance False)
       (sampleCluster ''TigeraSecureEnterprise'')) = None"
  by (simp add: bothPresent_def controller_defs sample_controller_defs)

text \<open>
  C3, amended. With both resources present: a pass of the compliance controller, and a pass
  of the API server controller under the enterprise variant, renders and applies nothing;
  and when every query before the check succeeds, \<open>Reconcile\<close> returns the error
  "having both a ManagementCluster and a ManagementClusterConnection is not supported" and
  its last call on the status manager sets the status to degraded with that message.
\<close>

theorem C3_both_present_is_fatal:
  assumes both: "bothPresent w"
  shows "(APIServer_reachesCheck N w \<longrightarrow>
            (\<exists>out. APIServer_Reconcile N r w = Returned out \<and>
               returned out = Some bothErr \<and>
               last (events out) = SetDegraded (ErrorString bothErr) [] \<and>
               \<not> list_ex rendersOrApplies (events out))) \<and>
         (fst (GetInstallation w) = TigeraSecureEnterprise N \<longrightarrow>
            \<not> list_ex rendersOrApplies (trace (APIServer_Reconcile N r w))) \<and>
         (Compliance_reachesCheck rc w \<longrightarrow>
            returned (Compliance_Reconcile N rc w) = Some bothErr \<and>
            last (events (Compliance_Reconcile N rc w)) = SetDegraded (ErrorString bothErr) [] \<and>
            \<not> list_ex rendersOrApplies (events (Compliance_Reconcile N rc w))) \<and>
         \<not> list_ex rendersOrApplies (events (Compliance_Reconcile N rc w))"
proof (intro conjI impI)
  assume a: "APIServer_reachesCheck N w"
  show "\<exists>out. APIServer_Reconcile N r w = Returned out \<and>
               returned out = Some bothErr \<and>
               last (events out) = SetDegraded (ErrorString bothErr) [] \<and>
               \<not> list_ex rendersOrApplies (events out)"
    by (simp add: APIServer_check[OF both a])
next
  assume "fst (GetInstallation w) = TigeraSecureEnterprise N"
  then show "\<not> list_ex rendersOrApplies (trace (APIServer_Reconcile N r w))"
    by (rule APIServer_no_render[OF both])
next
  assume c: "Compliance_reachesCheck rc w"
  show "returned (Compliance_Reconcile N rc w) = Some bothErr"
    and "last (events (Compliance_Reconcile N rc w)) = SetDegraded (ErrorString bothErr) []"
    and "\<not> list_ex rendersOrApplies (events (Compliance_Reconcile N rc w))"
    by (simp_all add: Compliance_check[OF both c])
next
  show "\<not> list_ex rendersOrApplies (events (Compliance_Reconcile N rc w))"
    by (rule Compliance_no_render[OF both])
qed

theorem C3_both_present_is_fatal_witness:
  "bothPresent sampleSplitCluster \<and>
   APIServer_reachesCheck sampleNames sampleSplitCluster \<and>
   bothPresent (sampleCluster ''TigeraSecureEnterprise'') \<and>
   Compliance_reachesCheck (sampleCompliance True) (sampleCluster ''TigeraSecureEnterprise'') \<and>
   (case APIServer_Reconcile sampleNames sampleAPIServer sampleSplitCluster of
      Returned out \<Rightarrow>
        returned out = Some bothErr \<and>
        last (events out) = SetDegraded (ErrorString bothErr) [] \<and>
        \<not> list_ex rendersOrApplies (events out)
    | Panicked evs \<Rightarrow> False) \<and>
   returned (Compliance_Reconcile sampleNames (sampleCompliance True)
       (sampleCluster ''TigeraSecureEnterprise'')) = Some bothErr \<and>
   last (events (Compliance_Reconcile sampleNames (sampleCompliance True)
       (sampleCluster ''TigeraSecureEnterprise''))) = SetDegraded (ErrorString bothErr) [] \<and>
   \<not> list_ex rendersOrApplies (events (Compliance_Reconcile sampleNames (sampleCompliance True)
       (sampleCluster ''TigeraSecureEnterprise'')))"
proof -
  let ?w = "sampleCluster ''TigeraSecureEnterprise''"
  have b: "bothPresent ?w" by (simp add: bothPresent_def sampleCluster_def)
  have b': "bothPresent sampleSplitCluster"
    by (simp add: bothPresent_def sampleSplitCluster_def sampleCluster_def)
  have a: "APIServer_reachesCheck sampleNames sampleSplitCluster"
    by (simp add: APIServer_reachesCheck_def sampleSplitCluster_def sampleCluster_def
        sampleNames_def)
  have c: "Compliance_reachesCheck (sampleCompliance True) ?w"
    by (simp add: Compliance_reachesCheck_def sampleCluster_def sampleCompliance_def)
  from C3_both_present_is_fatal[OF b', of sampleNames sampleAPIServer "sampleCompliance True"] a
  obtain out where "APIServer_Reconcile sampleNames sampleAPIServer sampleSplitCluster = Returned out"
    and "returned out = Some bothErr"
    and "last (events out) = SetDegraded (ErrorString bothErr) []"
    and "\<not> list_ex rendersOrApplies (events out)"
    by blast
  moreover
  from C3_both_present_is_fatal[OF b, of sampleNames sampleAPIServer "sampleCompliance True"] c
  have "returned (Compliance_Reconcile sampleNames (sampleCompliance True) ?w) = Some bothErr"
    and "last (events (Compliance_Reconcile sampleNames (sampleCompliance True) ?w))
           = SetDegraded (ErrorString bothErr) []"
    and "\<not> list_ex rendersOrApplies
           (events (Compliance_Reconcile sampleNames (sampleCompliance True) ?w))"
    by blast+
  ultimately show ?thesis using a b b' c by simp
qed

section \<open>The affinity of the ES Gateway deployment\<close>

text \<open>
  C5. With a replica count of 1 the pod template of the ES Gateway deployment has no
  affinity; with a replica count greater than 1, as for 2 and for 3, it has the pod
  anti-affinity; the two cases are told apart exactly by whether the count exceeds 1.
\<close>

theorem C5_affinity_boundary:
  "(sint replicas = 1 \<longrightarrow> esGatewayAffinity name ns replicas = None) \<and>
   (1 < sint replicas \<longrightarrow> esGatewayAffinity name ns replicas = Some (PodAntiAffinity name ns)) \<and>
   (esGatewayAffinity name ns replicas \<noteq> None) = (1 < sint replicas) \<and>
   esGatewayAffinity name ns 1 = None \<and>
   esGatewayAffinity name ns 2 = Some (PodAntiAffinity name ns) \<and>
   esGatewayAffinity name ns 3 = Some (PodAntiAffinity name ns)"
  by (simp add: esGatewayAffinity_def)

theorem C5_affinity_boundary_witness:
  "sint (1 :: int32) = 1 \<and>
   esGatewayAffinity ''tigera-secure-es-gateway'' ''tigera-elasticsearch'' 1 = None \<and>
   1 < sint (2 :: int32) \<and>
   esGatewayAffinity ''tigera-secure-es-gateway'' ''tigera-elasticsearch'' 2 =
     Some (PodAntiAffinity ''tigera-secure-es-gateway'' ''tigera-elasticsearch'')"
  using C5_affinity_boundary[of 1 "''tigera-secure-es-gateway''" "''tigera-elasticsearch''"]
    C5_affinity_boundary[of 2 "''tigera-secure-es-gateway''" "''tigera-elasticsearch''"]
  by simp

end
